theory Spec2Isabelle
  imports Complex_Main
begin

section \<open>Layout reconstruction: a shallow embedding of the PDF processors\<close>

text \<open>
  The development embeds three source units:
  \<^item> the legacy page processor (\<^verbatim>\<open>pdf-processor.tsx\<close>): OCR arbitration, \<^verbatim>\<open>performOCR\<close>,
    \<^verbatim>\<open>hasHigherQuality\<close>, \<^verbatim>\<open>groupNearbyTextChunks\<close>;
  \<^item> the enhanced processor: \<^verbatim>\<open>groupWordsIntoLines\<close>, \<^verbatim>\<open>groupLinesIntoBlocks\<close>,
    \<^verbatim>\<open>calculateBoundingBox\<close>, \<^verbatim>\<open>generateSemanticRegions\<close>, \<^verbatim>\<open>generateTextChunks\<close>;
  \<^item> the shared types module: \<^verbatim>\<open>transformLegacyToGrounding\<close>, \<^verbatim>\<open>transformGroundingToLegacy\<close>.

  Conventions. A JavaScript \<^verbatim>\<open>number\<close> that carries a coordinate, a confidence or an average
  is the \<^typ>\<open>real\<close> value of a double, and the arithmetic of the enhanced processor, of the
  transforms, of \<^verbatim>\<open>performOCR\<close> and of the channel arbitration is rounded as IEEE 754
  binary64 arithmetic rounds it (see the subsection on double-precision arithmetic); where
  an acceptance test follows a division by a page dimension, the zero dimension is guarded
  explicitly, with the outcome JavaScript has there. The merge arithmetic of the legacy
  line clusterer \<^verbatim>\<open>groupNearbyTextChunks\<close> is written with the exact operations: what is
  proved of it is an invariant of its final filter and one example on small integers, which
  doubles compute exactly; the bound 0.1 of that filter is the real number, which lies
  below the double the source compares with. Page numbers and indices are \<^typ>\<open>int\<close> and
  \<^typ>\<open>nat\<close>; sums of text lengths are integers, which doubles add exactly. A JavaScript
  string is a \<^typ>\<open>string\<close> whose characters are code units below 256. Record fields carry
  a short prefix of their record, since several source types share field names (\<^verbatim>\<open>text\<close>,
  \<^verbatim>\<open>bbox\<close>, \<^verbatim>\<open>id\<close>).
\<close>

subsection \<open>Strings\<close>

text \<open>White space as \<^verbatim>\<open>String.prototype.trim\<close> and the regular expression class \<^verbatim>\<open>\s\<close> see
  it, restricted to code units below 256: TAB, LF, VT, FF, CR, SPACE and NBSP.\<close>

definition isSpace :: "char \<Rightarrow> bool" where
  "isSpace c = (c = CHR 0x09 \<or> c = CHR 0x0A \<or> c = CHR 0x0B \<or> c = CHR 0x0C \<or> c = CHR 0x0D
                \<or> c = CHR 0x20 \<or> c = CHR 0xA0)"

definition trim :: "string \<Rightarrow> string" where
  "trim s = rev (dropWhile isSpace (rev (dropWhile isSpace s)))"

text \<open>\<^verbatim>\<open>s.replace(/\s+/g, ' ')\<close>: every maximal run of white space becomes one space.\<close>

function collapseWs :: "string \<Rightarrow> string" where
  "collapseWs [] = []"
| "collapseWs (c # cs) =
     (if isSpace c then CHR 0x20 # collapseWs (dropWhile isSpace cs) else c # collapseWs cs)"
  by pat_completeness auto
termination
  by (relation "measure length") (auto simp: length_dropWhile_le less_Suc_eq_le)

text \<open>\<^verbatim>\<open>xs.join(sep)\<close>.\<close>

fun joinWith :: "string \<Rightarrow> string list \<Rightarrow> string" where
  "joinWith sep [] = []"
| "joinWith sep [s] = s"
| "joinWith sep (s # t # ts) = s @ sep @ joinWith sep (t # ts)"

text \<open>Decimal rendering of an index inside a template literal.\<close>

definition digitChar :: "nat \<Rightarrow> char" where
  "digitChar d = ''0123456789'' ! d"

function showNat :: "nat \<Rightarrow> string" where
  "showNat n = (if n < 10 then [digitChar n] else showNat (n div 10) @ [digitChar (n mod 10)])"
  by pat_completeness auto
termination
  by (relation "measure id") auto

declare showNat.simps [simp del]

definition showInt :: "int \<Rightarrow> string" where
  "showInt i = (if i < 0 then CHR ''-'' # showNat (nat (- i)) else showNat (nat i))"

subsection \<open>Double-precision arithmetic\<close>

text \<open>
  A JavaScript \<^verbatim>\<open>number\<close> is an IEEE 754 binary64 value. It is represented by the real
  number it denotes, and every arithmetic operation of the source is the exact operation
  followed by rounding to the nearest value with a 53-bit significand, ties to the even
  significand (\<open>rnd\<close>). The exponent is not bounded: overflow to Infinity and the
  subnormal range are not represented, nor is NaN. A division by zero, which gives
  Infinity or NaN in JavaScript, is not represented by \<open>fdiv\<close>: where the source can reach
  one, the model guards it explicitly or the statement takes the divisor to be positive.
  A decimal literal \<open>c\<close> of the source denotes the double \<open>dbl c\<close>, and so does a decimal
  constant of a claim.

  \<open>ilog2 a\<close> is the binade of a positive \<open>a\<close>: the integer \<open>k\<close> with \<open>2 powi k \<le> a < 2 powi (k + 1)\<close>
  (see \<open>ilog2_bounds\<close>), found by halving or doubling.
\<close>

function ilogUp :: "real \<Rightarrow> int" where
  "ilogUp a = (if 2 \<le> a then ilogUp (a / 2) + 1 else 0)"
  by pat_completeness auto
termination
proof (relation "measure (\<lambda>a. nat \<lfloor>a\<rfloor>)")
  show "wf (measure (\<lambda>a::real. nat \<lfloor>a\<rfloor>))" by simp
next
  fix a :: real
  assume a: "2 \<le> a"
  have f: "2 \<le> \<lfloor>a\<rfloor>" using a by (simp add: le_floor_iff)
  have "a < of_int \<lfloor>a\<rfloor> + 1" by linarith
  moreover have "(2::real) \<le> of_int \<lfloor>a\<rfloor>" using f by linarith
  ultimately have "a / 2 < of_int \<lfloor>a\<rfloor>" by linarith
  then have "\<lfloor>a / 2\<rfloor> < \<lfloor>a\<rfloor>" by (simp only: floor_less_iff)
  moreover have "0 < \<lfloor>a\<rfloor>" using f by linarith
  ultimately have "nat \<lfloor>a / 2\<rfloor> < nat \<lfloor>a\<rfloor>" by linarith
  then show "(a / 2, a) \<in> measure (\<lambda>a. nat \<lfloor>a\<rfloor>)" by (simp only: in_measure)
qed

function ilogDown :: "real \<Rightarrow> int" where
  "ilogDown a = (if 0 < a \<and> a < 1 then ilogDown (2 * a) - 1 else 0)"
  by pat_completeness auto
termination
proof (relation "measure (\<lambda>a. nat \<lfloor>1 / a\<rfloor>)")
  show "wf (measure (\<lambda>a::real. nat \<lfloor>1 / a\<rfloor>))" by simp
next
  fix a :: real
  assume a: "0 < a \<and> a < 1"
  define v where "v = 1 / a"
  have v: "1 < v" using a by (simp add: v_def)
  have f: "1 \<le> \<lfloor>v\<rfloor>" using v by (simp add: le_floor_iff)
  have h: "1 / (2 * a) = v / 2" by (simp add: v_def)
  have "v < of_int \<lfloor>v\<rfloor> + 1" by linarith
  moreover have "(1::real) \<le> of_int \<lfloor>v\<rfloor>" using f by linarith
  ultimately have "v / 2 < of_int \<lfloor>v\<rfloor>" by linarith
  then have "\<lfloor>v / 2\<rfloor> < \<lfloor>v\<rfloor>" by (simp only: floor_less_iff)
  moreover have "0 < \<lfloor>v\<rfloor>" using f by linarith
  ultimately have "nat \<lfloor>1 / (2 * a)\<rfloor> < nat \<lfloor>1 / a\<rfloor>"
    unfolding h unfolding v_def by linarith
  then show "(2 * a, a) \<in> measure (\<lambda>a. nat \<lfloor>1 / a\<rfloor>)" by (simp only: in_measure)
qed

declare ilogUp.simps [simp del] ilogDown.simps [simp del]

definition ilog2 :: "real \<Rightarrow> int" where
  "ilog2 a = (if 1 \<le> a then ilogUp a else ilogDown a)"

text \<open>Rounding to the nearest integer, a tie to the even one.\<close>

definition roundEven :: "real \<Rightarrow> int" where
  "roundEven y =
     (let f = \<lfloor>y\<rfloor>; d = y - of_int f
      in if d < 1 / 2 then f else if 1 / 2 < d then f + 1 else if even f then f else f + 1)"

text \<open>Rounding to the nearest double: the significand \<open>x / 2 powi e\<close> lies between \<open>2 ^ 52\<close>
  and \<open>2 ^ 53\<close> in absolute value and is rounded to an integer.\<close>

definition rnd :: "real \<Rightarrow> real" where
  "rnd x =
     (if x = 0 then 0
      else (let e = ilog2 \<bar>x\<bar> - 52 in of_int (roundEven (x / 2 powi e)) * 2 powi e))"

definition dbl :: "real \<Rightarrow> real" where
  "dbl c = rnd c"

definition fadd :: "real \<Rightarrow> real \<Rightarrow> real" where
  "fadd a b = rnd (a + b)"

definition fsub :: "real \<Rightarrow> real \<Rightarrow> real" where
  "fsub a b = rnd (a - b)"

definition fmul :: "real \<Rightarrow> real \<Rightarrow> real" where
  "fmul a b = rnd (a * b)"

definition fdiv :: "real \<Rightarrow> real \<Rightarrow> real" where
  "fdiv a b = rnd (a / b)"

subsection \<open>Sorting with a comparator\<close>

text \<open>
  \<^verbatim>\<open>Array.prototype.sort(cmp)\<close> is stable. It is modelled by a stable insertion sort that
  places an element before the first one it does not compare greater than. For a
  comparator that is a consistent total preorder every conforming engine returns this
  list; for the banded comparators of the clusterers (ties within a vertical band),
  which are not transitive, ECMAScript leaves the order implementation-defined; the
  bounds proved below for the legacy line clusterer hold for every order of the input
  (\<open>groupInOrder_bounds\<close>), and the concrete inputs evaluated below have at most two
  elements to sort, on which every comparison sort agrees with this one.
\<close>

fun insertBy :: "('a \<Rightarrow> 'a \<Rightarrow> real) \<Rightarrow> 'a \<Rightarrow> 'a list \<Rightarrow> 'a list" where
  "insertBy cmp x [] = [x]"
| "insertBy cmp x (y # ys) = (if cmp x y \<le> 0 then x # y # ys else y # insertBy cmp x ys)"

definition sortBy :: "('a \<Rightarrow> 'a \<Rightarrow> real) \<Rightarrow> 'a list \<Rightarrow> 'a list" where
  "sortBy cmp xs = foldr (insertBy cmp) xs []"

subsection \<open>Data model of the intermediate representation\<close>

record BoundingBox =
  bb_x :: real
  bb_y :: real
  bb_width :: real
  bb_height :: real

record Word =
  w_text :: string
  w_bbox :: BoundingBox
  w_confidence :: real

record Line =
  ln_id :: string
  ln_words :: "Word list"
  ln_bbox :: BoundingBox
  ln_readingOrder :: nat

datatype BlockType =
  BT_paragraph | BT_heading | BT_list | BT_table | BT_image | BT_line | BT_footer | BT_header
  | BT_form_field | BT_signature | BT_logo | BT_caption

record Block =
  b_id :: string
  b_type :: BlockType
  b_bbox :: BoundingBox
  b_lines :: "Line list"
  b_confidence :: real
  b_readingOrder :: nat
  b_semanticRole :: "string option"

subsection \<open>Block clusterer\<close>

text \<open>\<^verbatim>\<open>currentLine.bbox.y - (lastLineInBlock.bbox.y + lastLineInBlock.bbox.height)\<close>, the sum
  and the difference each rounded.\<close>

definition verticalGap :: "Line \<Rightarrow> Line \<Rightarrow> real" where
  "verticalGap lastLineInBlock currentLine =
     fsub (bb_y (ln_bbox currentLine))
          (fadd (bb_y (ln_bbox lastLineInBlock)) (bb_height (ln_bbox lastLineInBlock)))"

text \<open>The \<^verbatim>\<open>for\<close> loop of \<^verbatim>\<open>groupLinesIntoBlocks\<close>: the state is the list of closed blocks
  and the open block, which is never empty.\<close>

fun blocksLoop :: "Line list list \<Rightarrow> Line list \<Rightarrow> Line list \<Rightarrow> Line list list \<times> Line list" where
  "blocksLoop blocks currentBlock [] = (blocks, currentBlock)"
| "blocksLoop blocks currentBlock (currentLine # rest) =
     (if verticalGap (last currentBlock) currentLine > dbl 0.03
      then blocksLoop (blocks @ [currentBlock]) [currentLine] rest
      else blocksLoop blocks (currentBlock @ [currentLine]) rest)"

definition groupLinesIntoBlocks :: "Line list \<Rightarrow> Line list list" where
  "groupLinesIntoBlocks lines =
     (case lines of
        [] \<Rightarrow> []
      | l0 # rest \<Rightarrow>
          (case blocksLoop [] [l0] rest of
             (blocks, currentBlock) \<Rightarrow>
               if length currentBlock > 0 then blocks @ [currentBlock] else blocks))"

text \<open>The index of the block that holds position \<open>i\<close> of the concatenated lines.\<close>

fun blockOf :: "'a list list \<Rightarrow> nat \<Rightarrow> nat" where
  "blockOf [] i = 0"
| "blockOf (b # bs) i = (if i < length b then 0 else Suc (blockOf bs (i - length b)))"

text \<open>The blocks as the input split after every gap above the threshold: the same result,
  computed from the front (see \<open>groupLinesIntoBlocks_split\<close>).\<close>

fun consPrefix :: "'a list \<Rightarrow> 'a list list \<Rightarrow> 'a list list" where
  "consPrefix p [] = [p]"
| "consPrefix p (b # bs) = (p @ b) # bs"

fun splitAtGaps :: "Line \<Rightarrow> Line list \<Rightarrow> Line list list" where
  "splitAtGaps l [] = [[l]]"
| "splitAtGaps l (m # ms) =
     (if verticalGap l m > dbl 0.03 then [l] # splitAtGaps m ms
      else consPrefix [l] (splitAtGaps m ms))"

subsection \<open>Line clusterer of the enhanced processor\<close>

definition cmpWords :: "Word \<Rightarrow> Word \<Rightarrow> real" where
  "cmpWords a b =
     (let yDiff = fsub (bb_y (w_bbox a)) (bb_y (w_bbox b))
      in if \<bar>yDiff\<bar> < dbl 0.01 then fsub (bb_x (w_bbox a)) (bb_x (w_bbox b)) else yDiff)"

fun linesLoop :: "Word list list \<Rightarrow> Word list \<Rightarrow> Word list \<Rightarrow> Word list list \<times> Word list" where
  "linesLoop lines currentLine [] = (lines, currentLine)"
| "linesLoop lines currentLine (currentWord # rest) =
     (if \<bar>fsub (bb_y (w_bbox currentWord)) (bb_y (w_bbox (last currentLine)))\<bar> < dbl 0.02
      then linesLoop lines (currentLine @ [currentWord]) rest
      else linesLoop (lines @ [currentLine]) [currentWord] rest)"

definition groupWordsIntoLines :: "Word list \<Rightarrow> Word list list" where
  "groupWordsIntoLines words =
     (if length words = 0 then []
      else (case sortBy cmpWords words of
              [] \<Rightarrow> []
            | w0 # rest \<Rightarrow>
                (case linesLoop [] [w0] rest of
                   (lines, currentLine) \<Rightarrow>
                     if length currentLine > 0 then lines @ [currentLine] else lines)))"

subsection \<open>Bounding boxes\<close>

fun minList :: "real list \<Rightarrow> real" where
  "minList [] = 0"
| "minList (x # xs) = foldl min x xs"

fun maxList :: "real list \<Rightarrow> real" where
  "maxList [] = 0"
| "maxList (x # xs) = foldl max x xs"

text \<open>\<open>minList\<close> and \<open>maxList\<close> are \<^verbatim>\<open>Math.min(...xs)\<close> and \<^verbatim>\<open>Math.max(...xs)\<close> on a list that
  is not empty, the only use \<^verbatim>\<open>calculateBoundingBox\<close> makes of them.\<close>

definition calculateBoundingBox :: "BoundingBox list \<Rightarrow> BoundingBox" where
  "calculateBoundingBox bboxes =
     (if length bboxes = 0 then \<lparr>bb_x = 0, bb_y = 0, bb_width = 0, bb_height = 0\<rparr>
      else
        (let minX = minList (map bb_x bboxes);
             minY = minList (map bb_y bboxes);
             maxX = maxList (map (\<lambda>b. fadd (bb_x b) (bb_width b)) bboxes);
             maxY = maxList (map (\<lambda>b. fadd (bb_y b) (bb_height b)) bboxes)
         in \<lparr>bb_x = minX, bb_y = minY, bb_width = fsub maxX minX,
             bb_height = fsub maxY minY\<rparr>))"

subsection \<open>Semantic region classifier\<close>

datatype RegionType =
  RT_header | RT_footer | RT_main_content | RT_sidebar | RT_navigation | RT_form | RT_table
  | RT_figure

record Region =
  r_id :: string
  r_type :: RegionType
  r_bbox :: BoundingBox
  r_confidence :: real
  r_blockIds :: "string list"

text \<open>\<^verbatim>\<open>[...blocks].sort((a, b) => a.bbox.y - b.bbox.y)\<close>: a stable sort on the key \<^verbatim>\<open>bbox.y\<close>,
  since the rounded difference of two doubles has the sign of their exact difference.\<close>

definition sortedBlocks :: "Block list \<Rightarrow> Block list" where
  "sortedBlocks blocks = sort_key (\<lambda>b. bb_y (b_bbox b)) blocks"

text \<open>The bottom of a block as the source computes it, \<^verbatim>\<open>b.bbox.y + b.bbox.height\<close>.\<close>

definition blockBottom :: "Block \<Rightarrow> real" where
  "blockBottom b = fadd (bb_y (b_bbox b)) (bb_height (b_bbox b))"

definition isMainBlock :: "Block \<Rightarrow> bool" where
  "isMainBlock b = (bb_y (b_bbox b) > dbl 0.2 \<and> blockBottom b < dbl 0.8)"

definition generateSemanticRegions :: "Block list \<Rightarrow> Region list" where
  "generateSemanticRegions blocks =
     (if length blocks > 0 then
        (let sorted = sortedBlocks blocks;
             topBlock = hd sorted;
             regions1 =
               (if bb_y (b_bbox topBlock) < dbl 0.2
                then [\<lparr>r_id = ''semantic-header-0'', r_type = RT_header, r_bbox = b_bbox topBlock,
                        r_confidence = dbl 0.7, r_blockIds = [b_id topBlock]\<rparr>]
                else []);
             bottomBlock = last sorted;
             regions2 =
               (if blockBottom bottomBlock > dbl 0.8
                then regions1 @
                       [\<lparr>r_id = ''semantic-footer-0'', r_type = RT_footer,
                         r_bbox = b_bbox bottomBlock, r_confidence = dbl 0.7,
                         r_blockIds = [b_id bottomBlock]\<rparr>]
                else regions1);
             mainBlocks = filter isMainBlock sorted
         in if length mainBlocks > 0
            then regions2 @
                   [\<lparr>r_id = ''semantic-main-0'', r_type = RT_main_content,
                     r_bbox = calculateBoundingBox (map b_bbox mainBlocks),
                     r_confidence = dbl 0.8, r_blockIds = map b_id mainBlocks\<rparr>]
            else regions2)
      else [])"

subsection \<open>Enhanced OCR page: words, lines, blocks\<close>

record OcrBBox =
  ob_x0 :: real
  ob_y0 :: real
  ob_x1 :: real
  ob_y1 :: real

text \<open>A word or a line as the OCR engine reports it; \<open>oi_bbox\<close> is \<open>None\<close> when the engine
  gives no box.\<close>

record OcrItem =
  oi_text :: string
  oi_confidence :: real
  oi_bbox :: "OcrBBox option"

record Coverage =
  cv_pdfNativeWords :: nat
  cv_ocrWords :: nat
  cv_reconciledWords :: nat
  cv_coveragePercent :: real

record IRPage =
  ip_pageNumber :: int
  ip_width :: real
  ip_height :: real
  ip_words :: "Word list"
  ip_lines :: "Line list"
  ip_blocks :: "Block list"
  ip_coverage :: Coverage
  ip_semanticRegions :: "Region list"

text \<open>The first \<^verbatim>\<open>forEach\<close> of \<^verbatim>\<open>performEnhancedOCR\<close>. The canvas is the rendered page and has
  positive dimensions.\<close>

definition ocrWordToWord :: "real \<Rightarrow> real \<Rightarrow> OcrItem \<Rightarrow> Word list" where
  "ocrWordToWord canvasWidth canvasHeight ocrWord =
     (case oi_bbox ocrWord of
        None \<Rightarrow> []
      | Some bbox \<Rightarrow>
          if trim (oi_text ocrWord) \<noteq> [] then
            [\<lparr>w_text = oi_text ocrWord,
              w_bbox = \<lparr>bb_x = fdiv (ob_x0 bbox) canvasWidth,
                        bb_y = fdiv (ob_y0 bbox) canvasHeight,
                        bb_width = fdiv (fsub (ob_x1 bbox) (ob_x0 bbox)) canvasWidth,
                        bb_height = fdiv (fsub (ob_y1 bbox) (ob_y0 bbox)) canvasHeight\<rparr>,
              w_confidence = fdiv (oi_confidence ocrWord) 100\<rparr>]
          else [])"

text \<open>\<^verbatim>\<open>groupedLines.forEach((lineWords, lineIndex) => ...)\<close>\<close>

definition assembleLines :: "Word list list \<Rightarrow> Line list" where
  "assembleLines groupedLines =
     map (\<lambda>(lineIndex, lineWords).
            \<lparr>ln_id = ''line-'' @ showNat lineIndex, ln_words = lineWords,
             ln_bbox = calculateBoundingBox (map w_bbox lineWords),
             ln_readingOrder = lineIndex\<rparr>)
         (filter (\<lambda>(lineIndex, lineWords). length lineWords > 0)
                 (enumerate 0 groupedLines))"

definition lineConfidence :: "Line \<Rightarrow> real" where
  "lineConfidence l =
     fdiv (foldl (\<lambda>wSum w. fadd wSum (w_confidence w)) 0 (ln_words l))
          (real (length (ln_words l)))"

text \<open>\<^verbatim>\<open>groupedBlocks.forEach((blockLines, blockIndex) => ...)\<close>: the block id is
  \<^verbatim>\<open>`block-${blockIndex}`\<close>, the index within the page.\<close>

definition assembleBlocks :: "Line list list \<Rightarrow> Block list" where
  "assembleBlocks groupedBlocks =
     map (\<lambda>(blockIndex, blockLines).
            \<lparr>b_id = ''block-'' @ showNat blockIndex, b_type = BT_paragraph,
             b_bbox = calculateBoundingBox (map ln_bbox blockLines),
             b_lines = blockLines,
             b_confidence =
               fdiv (foldl (\<lambda>sum l. fadd sum (lineConfidence l)) 0 blockLines)
                    (real (length blockLines)),
             b_readingOrder = blockIndex, b_semanticRole = None\<rparr>)
         (filter (\<lambda>(blockIndex, blockLines). length blockLines > 0)
                 (enumerate 0 groupedBlocks))"

text \<open>The page of the intermediate representation that \<^verbatim>\<open>performEnhancedOCR\<close> returns. Its
  second result, the legacy chunks with \<^verbatim>\<open>nanoid()\<close> ids, plays no part in chunk
  projection and is left out. \<open>None\<close> for the words is \<^verbatim>\<open>data.words\<close> being absent.\<close>

definition performEnhancedOCR :: "OcrItem list option \<Rightarrow> real \<Rightarrow> real \<Rightarrow> int \<Rightarrow> IRPage" where
  "performEnhancedOCR dataWords canvasWidth canvasHeight pageNumber =
     (let words = (case dataWords of
                     None \<Rightarrow> []
                   | Some ws \<Rightarrow> concat (map (ocrWordToWord canvasWidth canvasHeight) ws));
          lines = assembleLines (groupWordsIntoLines words);
          blocks = assembleBlocks (groupLinesIntoBlocks lines)
      in \<lparr>ip_pageNumber = pageNumber, ip_width = canvasWidth, ip_height = canvasHeight,
          ip_words = words, ip_lines = lines, ip_blocks = blocks,
          ip_coverage = \<lparr>cv_pdfNativeWords = 0, cv_ocrWords = length words,
                          cv_reconciledWords = length words, cv_coveragePercent = 95\<rparr>,
          ip_semanticRegions = generateSemanticRegions blocks\<rparr>)"

subsection \<open>Chunks with grounding, and chunk projection\<close>

datatype ChunkType =
  CT_text | CT_table | CT_figure | CT_title | CT_header | CT_footer | CT_list | CT_caption
  | CT_form_field

record GroundingBox =
  gb_l :: real
  gb_t :: real
  gb_r :: real
  gb_b :: real

record Grounding =
  gr_page :: int
  gr_box :: GroundingBox

record TextChunk =
  tc_text :: string
  tc_chunk_id :: string
  tc_chunk_type :: ChunkType
  tc_grounding :: "Grounding list"
  tc_confidence :: "real option"
  tc_semantic_role :: "string option"

fun mapBlockTypeToChunkType :: "BlockType \<Rightarrow> ChunkType" where
  "mapBlockTypeToChunkType BT_paragraph = CT_text"
| "mapBlockTypeToChunkType BT_heading = CT_title"
| "mapBlockTypeToChunkType BT_list = CT_list"
| "mapBlockTypeToChunkType BT_table = CT_table"
| "mapBlockTypeToChunkType BT_image = CT_figure"
| "mapBlockTypeToChunkType BT_line = CT_text"
| "mapBlockTypeToChunkType BT_footer = CT_footer"
| "mapBlockTypeToChunkType BT_header = CT_header"
| "mapBlockTypeToChunkType BT_form_field = CT_form_field"
| "mapBlockTypeToChunkType BT_signature = CT_figure"
| "mapBlockTypeToChunkType BT_logo = CT_figure"
| "mapBlockTypeToChunkType BT_caption = CT_caption"

definition blockText :: "Block \<Rightarrow> string" where
  "blockText block =
     joinWith [CHR 0x0A]
       (map (\<lambda>line. joinWith [CHR 0x20] (map w_text (ln_words line))) (b_lines block))"

text \<open>The body of the inner \<^verbatim>\<open>forEach\<close> of \<^verbatim>\<open>generateTextChunks\<close>: the chunk a block
  pushes, if any. The chunk id is the id of the block.\<close>

definition blockChunk :: "IRPage \<Rightarrow> Block \<Rightarrow> TextChunk list" where
  "blockChunk page block =
     (let text = blockText block
      in if trim text \<noteq> [] then
           [\<lparr>tc_text = trim text, tc_chunk_id = b_id block,
             tc_chunk_type = mapBlockTypeToChunkType (b_type block),
             tc_grounding =
               [\<lparr>gr_page = ip_pageNumber page - 1,
                 gr_box = \<lparr>gb_l = bb_x (b_bbox block), gb_t = bb_y (b_bbox block),
                           gb_r = fadd (bb_x (b_bbox block)) (bb_width (b_bbox block)),
                           gb_b = fadd (bb_y (b_bbox block)) (bb_height (b_bbox block))\<rparr>\<rparr>],
             tc_confidence = Some (b_confidence block),
             tc_semantic_role = b_semanticRole block\<rparr>]
         else [])"

definition generateTextChunks :: "IRPage list \<Rightarrow> TextChunk list" where
  "generateTextChunks irPages =
     concat (map (\<lambda>page. concat (map (blockChunk page) (ip_blocks page))) irPages)"

text \<open>One scanned page as the run receives it: the OCR words and the canvas size.\<close>

record PageScan =
  ps_words :: "OcrItem list option"
  ps_canvasWidth :: real
  ps_canvasHeight :: real

text \<open>A document run of the enhanced processor: page \<open>k\<close> (from 1) goes through
  \<^verbatim>\<open>performEnhancedOCR\<close>, the pages are sorted by page number, and the chunks are projected
  from the sorted pages (\<^verbatim>\<open>generateTextChunks(finalIRPages)\<close>).\<close>

definition documentIRPages :: "PageScan list \<Rightarrow> IRPage list" where
  "documentIRPages scans =
     sort_key ip_pageNumber
       (map (\<lambda>(k, scan).
              performEnhancedOCR (ps_words scan) (ps_canvasWidth scan) (ps_canvasHeight scan)
                (int k))
            (enumerate 1 scans))"

definition documentChunks :: "PageScan list \<Rightarrow> TextChunk list" where
  "documentChunks scans = generateTextChunks (documentIRPages scans)"

subsection \<open>Legacy chunks and the coordinate transforms\<close>

record Geometry =
  g_x :: real
  g_y :: real
  g_w :: real
  g_h :: real

record LegacyTextChunk =
  lc_id :: string
  lc_text :: string
  lc_pageNumber :: int
  lc_geometry :: Geometry

datatype js_error =
  TypeError | CanvasContextError | RenderError | TextContentError | WorkerError
  | TerminateError

definition transformLegacyToGrounding :: "LegacyTextChunk \<Rightarrow> real \<Rightarrow> real \<Rightarrow> TextChunk" where
  "transformLegacyToGrounding legacyChunk pageWidth pageHeight =
     (let normalizedBox =
            \<lparr>gb_l = fdiv (g_x (lc_geometry legacyChunk)) pageWidth,
             gb_t = fdiv (g_y (lc_geometry legacyChunk)) pageHeight,
             gb_r = fdiv (fadd (g_x (lc_geometry legacyChunk)) (g_w (lc_geometry legacyChunk)))
                         pageWidth,
             gb_b = fdiv (fadd (g_y (lc_geometry legacyChunk)) (g_h (lc_geometry legacyChunk)))
                         pageHeight\<rparr>
      in \<lparr>tc_text = lc_text legacyChunk, tc_chunk_id = lc_id legacyChunk,
          tc_chunk_type = CT_text,
          tc_grounding = [\<lparr>gr_page = lc_pageNumber legacyChunk - 1, gr_box = normalizedBox\<rparr>],
          tc_confidence = Some (dbl 0.8), tc_semantic_role = None\<rparr>)"

text \<open>\<^verbatim>\<open>textChunk.grounding[0]\<close> is \<^verbatim>\<open>undefined\<close> on an empty array, and reading \<^verbatim>\<open>.box\<close> of it
  throws a TypeError.\<close>

definition transformGroundingToLegacy ::
  "TextChunk \<Rightarrow> real \<Rightarrow> real \<Rightarrow> js_error + LegacyTextChunk" where
  "transformGroundingToLegacy textChunk pageWidth pageHeight =
     (case tc_grounding textChunk of
        [] \<Rightarrow> Inl TypeError
      | grounding # _ \<Rightarrow>
          (let box = gr_box grounding
           in Inr \<lparr>lc_id = tc_chunk_id textChunk, lc_text = tc_text textChunk,
                   lc_pageNumber = gr_page grounding + 1,
                   lc_geometry = \<lparr>g_x = fmul (gb_l box) pageWidth,
                                   g_y = fmul (gb_t box) pageHeight,
                                   g_w = fmul (fsub (gb_r box) (gb_l box)) pageWidth,
                                   g_h = fmul (fsub (gb_b box) (gb_t box)) pageHeight\<rparr>\<rparr>))"

subsection \<open>Legacy processor: the line clusterer \<^verbatim>\<open>groupNearbyTextChunks\<close>\<close>

definition cmpChunks :: "LegacyTextChunk \<Rightarrow> LegacyTextChunk \<Rightarrow> real" where
  "cmpChunks a b =
     (let yDiff = g_y (lc_geometry a) - g_y (lc_geometry b)
      in if \<bar>yDiff\<bar> < 0.8 then g_x (lc_geometry a) - g_x (lc_geometry b) else yDiff)"

text \<open>One step of the \<^verbatim>\<open>forEach\<close> for an index above 0: the chunk is merged into the last
  group, which is updated in place, or opens a new group. The height is assigned twice in
  the source; the second assignment reads the first. A group is a shallow copy of the chunk
  that opened it and shares its geometry object; that chunk has been visited by then and is
  not read again, so the update in place is the update of a value here.\<close>

definition mergeChunk :: "LegacyTextChunk list \<Rightarrow> LegacyTextChunk \<Rightarrow> LegacyTextChunk list" where
  "mergeChunk grouped chunk =
     (let lastGroup = last grouped;
          lg = lc_geometry lastGroup;
          cg = lc_geometry chunk;
          verticalDistance = \<bar>g_y cg - g_y lg\<bar>;
          horizontalDistance = g_x cg - (g_x lg + g_w lg);
          onSameLine = verticalDistance < 1.2;
          closeHorizontally = (horizontalDistance \<ge> 0 \<and> horizontalDistance < 3);
          notTooFar = horizontalDistance < 15;
          sameFontSize = \<bar>g_h cg - g_h lg\<bar> < 0.5;
          reasonableTextLength = (length (lc_text chunk) < 50 \<and> length (lc_text lastGroup) < 200)
      in if onSameLine \<and> closeHorizontally \<and> notTooFar \<and> sameFontSize \<and> reasonableTextLength
         then
           (let separator = (if horizontalDistance > 1 then [CHR 0x20] else []);
                text = lc_text lastGroup @ separator @ lc_text chunk;
                w = g_x cg + g_w cg - g_x lg;
                h1 = max (g_h lg) (g_h cg);
                minY = min (g_y lg) (g_y cg);
                maxH = max (g_y lg + h1) (g_y cg + g_h cg) - minY
            in butlast grouped @
                 [lastGroup\<lparr>lc_text := text,
                            lc_geometry := \<lparr>g_x = g_x lg, g_y = minY, g_w = w, g_h = maxH\<rparr>\<rparr>])
         else grouped @ [chunk])"

text \<open>The predicate of the final \<^verbatim>\<open>filter\<close> and the function of the final \<^verbatim>\<open>map\<close>.\<close>

definition keepGroup :: "LegacyTextChunk \<Rightarrow> bool" where
  "keepGroup chunk =
     (let isValidSize = (g_w (lc_geometry chunk) > 0.1 \<and> g_h (lc_geometry chunk) > 0.1);
          hasValidText = (length (trim (lc_text chunk)) > 0);
          notTooLong = (length (lc_text chunk) < 500)
      in isValidSize \<and> hasValidText \<and> notTooLong)"

definition cleanText :: "LegacyTextChunk \<Rightarrow> LegacyTextChunk" where
  "cleanText chunk = chunk\<lparr>lc_text := trim (collapseWs (lc_text chunk))\<rparr>"

text \<open>The merge pass and the post-processing on a list already in visiting order.\<close>

definition groupInOrder :: "LegacyTextChunk list \<Rightarrow> LegacyTextChunk list" where
  "groupInOrder sortedChunks =
     (case sortedChunks of
        [] \<Rightarrow> []
      | c0 # rest \<Rightarrow> map cleanText (filter keepGroup (foldl mergeChunk [c0] rest)))"

definition groupNearbyTextChunks :: "LegacyTextChunk list \<Rightarrow> LegacyTextChunk list" where
  "groupNearbyTextChunks chunks =
     (if length chunks = 0 then [] else groupInOrder (sortBy cmpChunks chunks))"


subsection \<open>Legacy processor: \<^verbatim>\<open>performOCR\<close>\<close>

text \<open>A call of a collaborator either throws (a rejected promise) or returns.\<close>

datatype 'a outcome = Throws | Returns 'a

text \<open>What \<^verbatim>\<open>worker.recognize\<close> returns: the page text and, when the engine provides them,
  word-level and line-level items.\<close>

record OcrData =
  od_text :: string
  od_words :: "OcrItem list option"
  od_lines :: "OcrItem list option"

text \<open>The collaborator calls that one run of \<^verbatim>\<open>performOCR\<close> makes, in the order of the source:
  \<^verbatim>\<open>createWorker\<close>, \<^verbatim>\<open>setParameters\<close>, \<^verbatim>\<open>recognize\<close> (its \<^verbatim>\<open>data\<close>, possibly null), loading the
  image (its width and height) and \<^verbatim>\<open>terminate\<close>.\<close>

record OcrRun =
  or_createWorker :: "unit outcome"
  or_setParameters :: "unit outcome"
  or_recognize :: "OcrData option outcome"
  or_loadImage :: "(real \<times> real) outcome"
  or_terminate :: "unit outcome"

definition inBounds :: "Geometry \<Rightarrow> bool" where
  "inBounds g =
     (g_x g \<ge> 0 \<and> g_y g \<ge> 0 \<and> g_w g > 0 \<and> g_h g > 0 \<and> g_x g < 100 \<and> g_y g < 100
      \<and> fadd (g_x g) (g_w g) \<le> 100 \<and> fadd (g_y g) (g_h g) \<le> 100)"

definition itemGeometry :: "real \<Rightarrow> real \<Rightarrow> OcrBBox \<Rightarrow> Geometry" where
  "itemGeometry imgWidth imgHeight bbox =
     \<lparr>g_x = fmul (fdiv (ob_x0 bbox) imgWidth) 100,
      g_y = fmul (fdiv (ob_y0 bbox) imgHeight) 100,
      g_w = fmul (fdiv (fsub (ob_x1 bbox) (ob_x0 bbox)) imgWidth) 100,
      g_h = fmul (fdiv (fsub (ob_y1 bbox) (ob_y0 bbox)) imgHeight) 100\<rparr>"

definition ocrChunkId :: "int \<Rightarrow> string \<Rightarrow> nat \<Rightarrow> string" where
  "ocrChunkId pageNum tag chunkIndex = ''page-'' @ showInt pageNum @ tag @ showNat chunkIndex"

text \<open>The body of the \<^verbatim>\<open>forEach\<close> over words (tag \<^verbatim>\<open>-ocr-\<close>) and over lines (tag \<^verbatim>\<open>-ocr-line-\<close>):
  the state is the chunk list and the running \<^verbatim>\<open>chunkIndex\<close>. With an image of width or
  height 0 the coordinates are NaN or infinite in JavaScript and the bounds test fails.\<close>

definition pushOcrItem ::
  "string \<Rightarrow> int \<Rightarrow> real \<Rightarrow> real \<Rightarrow> LegacyTextChunk list \<times> nat \<Rightarrow> OcrItem
     \<Rightarrow> LegacyTextChunk list \<times> nat" where
  "pushOcrItem tag pageNum imgWidth imgHeight st item =
     (case st of
        (textChunks, chunkIndex) \<Rightarrow>
          (case oi_bbox item of
             None \<Rightarrow> (textChunks, chunkIndex)
           | Some bbox \<Rightarrow>
               if oi_text item \<noteq> [] \<and> length (trim (oi_text item)) > 0
                  \<and> oi_confidence item \<noteq> 0 \<and> oi_confidence item > 30
               then
                 (if imgWidth \<noteq> 0 \<and> imgHeight \<noteq> 0
                     \<and> inBounds (itemGeometry imgWidth imgHeight bbox)
                  then (textChunks @
                          [\<lparr>lc_id = ocrChunkId pageNum tag chunkIndex,
                            lc_text = trim (oi_text item), lc_pageNumber = pageNum,
                            lc_geometry = itemGeometry imgWidth imgHeight bbox\<rparr>],
                        chunkIndex + 1)
                  else (textChunks, chunkIndex))
               else (textChunks, chunkIndex)))"

definition fullPageChunk :: "int \<Rightarrow> string \<Rightarrow> LegacyTextChunk" where
  "fullPageChunk pageNum text =
     \<lparr>lc_id = ''page-'' @ showInt pageNum @ ''-ocr-full'', lc_text = trim text,
      lc_pageNumber = pageNum, lc_geometry = \<lparr>g_x = 5, g_y = 5, g_w = 90, g_h = 90\<rparr>\<rparr>"

text \<open>The processing of the recognised data, from \<^verbatim>\<open>if (data && data.text && ...)\<close> to
  \<^verbatim>\<open>return textChunks\<close>.\<close>

definition recognizedChunks ::
  "OcrData option \<Rightarrow> real \<Rightarrow> real \<Rightarrow> int \<Rightarrow> LegacyTextChunk list" where
  "recognizedChunks data imgWidth imgHeight pageNum =
     (case data of
        None \<Rightarrow> []
      | Some d \<Rightarrow>
          if od_text d \<noteq> [] \<and> length (trim (od_text d)) > 0 then
            (let st0 = ([], 0);
                 st1 = (case od_words d of
                          None \<Rightarrow> st0
                        | Some words \<Rightarrow>
                            if length words > 0
                            then foldl (pushOcrItem ''-ocr-'' pageNum imgWidth imgHeight) st0 words
                            else st0);
                 st2 = (if length (fst st1) = 0 then
                          (case od_lines d of
                             None \<Rightarrow> st1
                           | Some lines \<Rightarrow>
                               if length lines > 0
                               then foldl (pushOcrItem ''-ocr-line-'' pageNum imgWidth imgHeight)
                                      st1 lines
                               else st1)
                        else st1)
             in if length (fst st2) = 0 \<and> length (trim (od_text d)) > 0
                then fst st2 @ [fullPageChunk pageNum (od_text d)]
                else fst st2)
          else [])"

text \<open>\<^verbatim>\<open>performOCR\<close>: the worker is created outside the \<^verbatim>\<open>try\<close>; every failure inside it is
  caught and yields the empty list; \<^verbatim>\<open>terminate\<close> runs in the \<^verbatim>\<open>finally\<close> clause.\<close>

definition performOCR :: "OcrRun \<Rightarrow> int \<Rightarrow> js_error + LegacyTextChunk list" where
  "performOCR run pageNum =
     (case or_createWorker run of
        Throws \<Rightarrow> Inl WorkerError
      | Returns _ \<Rightarrow>
          (let textChunks =
                 (case or_setParameters run of
                    Throws \<Rightarrow> []
                  | Returns _ \<Rightarrow>
                      (case or_recognize run of
                         Throws \<Rightarrow> []
                       | Returns data \<Rightarrow>
                           (case or_loadImage run of
                              Throws \<Rightarrow> []
                            | Returns (imgWidth, imgHeight) \<Rightarrow>
                                recognizedChunks data imgWidth imgHeight pageNum)))
           in case or_terminate run of
                Throws \<Rightarrow> Inl TerminateError
              | Returns _ \<Rightarrow> Inr textChunks))"

text \<open>The acceptance filter of an OCR item, and the chunks of one granularity as the
  accepted items numbered from 0: what the two loops compute (see \<open>foldl_pushOcrItem\<close>).\<close>

definition acceptsItem :: "real \<Rightarrow> real \<Rightarrow> OcrItem \<Rightarrow> bool" where
  "acceptsItem imgWidth imgHeight item =
     (length (trim (oi_text item)) > 0 \<and> oi_confidence item > 30
      \<and> (case oi_bbox item of
            None \<Rightarrow> False
          | Some bbox \<Rightarrow>
              imgWidth \<noteq> 0 \<and> imgHeight \<noteq> 0 \<and> inBounds (itemGeometry imgWidth imgHeight bbox)))"

definition itemChunk :: "string \<Rightarrow> int \<Rightarrow> real \<Rightarrow> real \<Rightarrow> nat \<Rightarrow> OcrItem \<Rightarrow> LegacyTextChunk" where
  "itemChunk tag pageNum imgWidth imgHeight chunkIndex item =
     \<lparr>lc_id = ocrChunkId pageNum tag chunkIndex, lc_text = trim (oi_text item),
      lc_pageNumber = pageNum,
      lc_geometry =
        (case oi_bbox item of
           None \<Rightarrow> \<lparr>g_x = 0, g_y = 0, g_w = 0, g_h = 0\<rparr>
         | Some bbox \<Rightarrow> itemGeometry imgWidth imgHeight bbox)\<rparr>"

definition levelChunks ::
  "string \<Rightarrow> int \<Rightarrow> real \<Rightarrow> real \<Rightarrow> nat \<Rightarrow> OcrItem list \<Rightarrow> LegacyTextChunk list" where
  "levelChunks tag pageNum imgWidth imgHeight start items =
     map (\<lambda>(chunkIndex, item). itemChunk tag pageNum imgWidth imgHeight chunkIndex item)
         (enumerate start (filter (acceptsItem imgWidth imgHeight) items))"

definition itemsOf :: "OcrItem list option \<Rightarrow> OcrItem list" where
  "itemsOf xs = (case xs of None \<Rightarrow> [] | Some ys \<Rightarrow> ys)"

text \<open>A run in which every collaborator call returns.\<close>

definition recognizedRun :: "OcrData option \<Rightarrow> real \<Rightarrow> real \<Rightarrow> OcrRun" where
  "recognizedRun data imgWidth imgHeight =
     \<lparr>or_createWorker = Returns (), or_setParameters = Returns (), or_recognize = Returns data,
      or_loadImage = Returns (imgWidth, imgHeight), or_terminate = Returns ()\<rparr>"

text \<open>A run in which some collaborator call throws.\<close>

definition ocrFails :: "OcrRun \<Rightarrow> bool" where
  "ocrFails run =
     (or_createWorker run = Throws \<or> or_setParameters run = Throws \<or> or_recognize run = Throws
      \<or> or_loadImage run = Throws \<or> or_terminate run = Throws)"

subsection \<open>Legacy processor: channel arbitration and the page\<close>

definition averageTextLength :: "LegacyTextChunk list \<Rightarrow> real" where
  "averageTextLength chunks =
     fdiv (real (foldl (\<lambda>sum chunk. sum + length (lc_text chunk)) 0 chunks))
          (real (length chunks))"

text \<open>The character class \<^verbatim>\<open>[^\w\s.,!?;:()-]\<close>.\<close>

definition isWordChar :: "char \<Rightarrow> bool" where
  "isWordChar c =
     (let n = (of_char c :: nat)
      in (48 \<le> n \<and> n \<le> 57) \<or> (65 \<le> n \<and> n \<le> 90) \<or> (97 \<le> n \<and> n \<le> 122) \<or> n = 95)"

definition isSpecialChar :: "char \<Rightarrow> bool" where
  "isSpecialChar c = (\<not> (isWordChar c \<or> isSpace c \<or> c \<in> set ''.,!?;:()-''))"

definition shouldUseOCR :: "LegacyTextChunk list \<Rightarrow> bool" where
  "shouldUseOCR pdfChunks =
     (if length pdfChunks = 0 then True
      else
        (let avgTextLength = averageTextLength pdfChunks;
             hasLongWords = list_ex (\<lambda>chunk. length (lc_text chunk) > 20) pdfChunks;
             hasSpecialChars = list_ex (\<lambda>chunk. list_ex isSpecialChar (lc_text chunk)) pdfChunks
         in avgTextLength < 3 \<or> (\<not> hasLongWords \<and> length pdfChunks > 50) \<or> hasSpecialChars))"

definition hasHigherQuality :: "LegacyTextChunk list \<Rightarrow> LegacyTextChunk list \<Rightarrow> bool" where
  "hasHigherQuality ocrChunks pdfChunks =
     (if length ocrChunks = 0 then False
      else if length pdfChunks = 0 then True
      else
        (let ocrAvgLength = averageTextLength ocrChunks;
             pdfAvgLength = averageTextLength pdfChunks
         in ocrAvgLength > fmul pdfAvgLength (dbl 1.2)
            \<or> real (length ocrChunks) > fmul (real (length pdfChunks)) (dbl 1.5)))"

text \<open>\<^verbatim>\<open>finalTextChunks\<close> of \<^verbatim>\<open>onPageLoadSuccess\<close>: OCR runs when the native chunks are few or
  look fragmented; an exception of \<^verbatim>\<open>performOCR\<close> is caught and the native chunks stay.\<close>

definition ocrTriggered :: "LegacyTextChunk list \<Rightarrow> bool" where
  "ocrTriggered pdfTextChunks = (length pdfTextChunks < 10 \<or> shouldUseOCR pdfTextChunks)"

definition finalTextChunks :: "LegacyTextChunk list \<Rightarrow> OcrRun \<Rightarrow> int \<Rightarrow> LegacyTextChunk list" where
  "finalTextChunks pdfTextChunks run pageNum =
     (if ocrTriggered pdfTextChunks then
        (case performOCR run pageNum of
           Inl ocrError \<Rightarrow> pdfTextChunks
         | Inr ocrChunks \<Rightarrow>
             if length ocrChunks > length pdfTextChunks \<or> hasHigherQuality ocrChunks pdfTextChunks
             then ocrChunks
             else pdfTextChunks)
      else pdfTextChunks)"

text \<open>A text item of PDF.js: \<^verbatim>\<open>str\<close>, the entries 4 and 5 of \<^verbatim>\<open>transform\<close> when the array has
  them, \<^verbatim>\<open>width\<close> and \<^verbatim>\<open>height\<close>.\<close>

record TextItem =
  ti_str :: string
  ti_transform :: "(real \<times> real) option"
  ti_width :: real
  ti_height :: real

definition pushTextItem ::
  "int \<Rightarrow> real \<Rightarrow> real \<Rightarrow> LegacyTextChunk list \<times> nat \<Rightarrow> TextItem \<Rightarrow> LegacyTextChunk list \<times> nat" where
  "pushTextItem pageNum viewportWidth viewportHeight st item =
     (case st of
        (pdfTextChunks, chunkIndex) \<Rightarrow>
          (case ti_transform item of
             None \<Rightarrow> (pdfTextChunks, chunkIndex)
           | Some (t4, t5) \<Rightarrow>
               if ti_str item \<noteq> [] \<and> length (trim (ti_str item)) > 0
                  \<and> ti_width item \<noteq> 0 \<and> ti_height item \<noteq> 0
               then
                 (let g = \<lparr>g_x = fmul (fdiv t4 viewportWidth) 100,
                           g_y = fmul (fdiv (fsub (fsub viewportHeight t5) (ti_height item))
                                            viewportHeight) 100,
                           g_w = fmul (fdiv (ti_width item) viewportWidth) 100,
                           g_h = fmul (fdiv (ti_height item) viewportHeight) 100\<rparr>
                  in if viewportWidth \<noteq> 0 \<and> viewportHeight \<noteq> 0 \<and> inBounds g
                     then (pdfTextChunks @
                             [\<lparr>lc_id = ''page-'' @ showInt pageNum @ ''-pdf-'' @ showNat chunkIndex,
                               lc_text = trim (ti_str item), lc_pageNumber = pageNum,
                               lc_geometry = g\<rparr>],
                           chunkIndex + 1)
                     else (pdfTextChunks, chunkIndex))
               else (pdfTextChunks, chunkIndex)))"

text \<open>The native channel: \<open>None\<close> is a text content without items.\<close>

definition nativeChunks :: "TextItem list option \<Rightarrow> real \<Rightarrow> real \<Rightarrow> int \<Rightarrow> LegacyTextChunk list" where
  "nativeChunks items viewportWidth viewportHeight pageNum =
     (case items of
        None \<Rightarrow> []
      | Some its \<Rightarrow>
          if length its > 0
          then fst (foldl (pushTextItem pageNum viewportWidth viewportHeight) ([], 0) its)
          else [])"

record PageLoad =
  pl_context :: bool
  pl_render :: "unit outcome"
  pl_imageUrl :: string
  pl_textContent :: "TextItem list option outcome"
  pl_viewportWidth :: real
  pl_viewportHeight :: real
  pl_ocr :: OcrRun

record PageData =
  pd_pageNumber :: int
  pd_imageUrl :: string
  pd_textChunks :: "LegacyTextChunk list"

text \<open>\<^verbatim>\<open>onPageLoadSuccess\<close> up to the page data it hands to \<^verbatim>\<open>setAllPages\<close>. \<open>Inl\<close> is the outer
  \<^verbatim>\<open>catch\<close>, which reports the page through \<^verbatim>\<open>onError\<close>: a missing canvas context, a failed
  render, a failed \<^verbatim>\<open>getTextContent\<close>. Progress reporting is left out.\<close>

definition onPageLoadSuccess :: "PageLoad \<Rightarrow> int \<Rightarrow> js_error + PageData" where
  "onPageLoadSuccess page pageNum =
     (if \<not> pl_context page then Inl CanvasContextError
      else
        (case pl_render page of
           Throws \<Rightarrow> Inl RenderError
         | Returns _ \<Rightarrow>
             (case pl_textContent page of
                Throws \<Rightarrow> Inl TextContentError
              | Returns items \<Rightarrow>
                  (let pdfTextChunks =
                         nativeChunks items (pl_viewportWidth page) (pl_viewportHeight page) pageNum;
                       final = finalTextChunks pdfTextChunks (pl_ocr page) pageNum;
                       groupedChunks = groupNearbyTextChunks final
                   in Inr \<lparr>pd_pageNumber = pageNum, pd_imageUrl = pl_imageUrl page,
                           pd_textChunks = groupedChunks\<rparr>))))"

text \<open>The page loaded up to the OCR decision: a context, a rendered canvas, a text content.\<close>

definition pageLoaded :: "PageLoad \<Rightarrow> bool" where
  "pageLoaded page =
     (pl_context page \<and> pl_render page = Returns () \<and> pl_textContent page \<noteq> Throws)"

definition pageNative :: "PageLoad \<Rightarrow> int \<Rightarrow> LegacyTextChunk list" where
  "pageNative page pageNum =
     (case pl_textContent page of
        Throws \<Rightarrow> []
      | Returns items \<Rightarrow>
          nativeChunks items (pl_viewportWidth page) (pl_viewportHeight page) pageNum)"

subsection \<open>Sample inputs\<close>

definition sampleLine :: "nat \<Rightarrow> real \<Rightarrow> real \<Rightarrow> Line" where
  "sampleLine k y h =
     \<lparr>ln_id = ''line-'' @ showNat k,
      ln_words = [\<lparr>w_text = ''word'',
                   w_bbox = \<lparr>bb_x = dbl 0.1, bb_y = y, bb_width = dbl 0.5, bb_height = h\<rparr>,
                   w_confidence = dbl 0.9\<rparr>],
      ln_bbox = \<lparr>bb_x = dbl 0.1, bb_y = y, bb_width = dbl 0.5, bb_height = h\<rparr>,
      ln_readingOrder = k\<rparr>"

text \<open>A word on the pixel rows \<open>y0\<close> to \<open>y1\<close> of a canvas, as the OCR engine reports it.\<close>

definition rowWord :: "real \<Rightarrow> real \<Rightarrow> OcrItem" where
  "rowWord y0 y1 =
     \<lparr>oi_text = ''word'', oi_confidence = 90,
      oi_bbox = Some \<lparr>ob_x0 = 100, ob_y0 = y0, ob_x1 = 600, ob_y1 = y1\<rparr>\<rparr>"



definition sampleItem :: "string \<Rightarrow> real \<Rightarrow> OcrItem" where
  "sampleItem text x0 =
     \<lparr>oi_text = text, oi_confidence = 90,
      oi_bbox = Some \<lparr>ob_x0 = x0, ob_y0 = 10, ob_x1 = x0 + 10, ob_y1 = 20\<rparr>\<rparr>"

text \<open>An OCR result with three accepted words, and one whose page text is empty although
  a word is reported.\<close>

definition threeWordData :: OcrData where
  "threeWordData =
     \<lparr>od_text = ''abcde abcde abcde'',
      od_words = Some [sampleItem ''abcde'' 10, sampleItem ''abcde'' 30, sampleItem ''abcde'' 50],
      od_lines = None\<rparr>"

definition emptyTextData :: OcrData where
  "emptyTextData =
     \<lparr>od_text = [], od_words = Some [sampleItem ''abcde'' 10], od_lines = None\<rparr>"

text \<open>An OCR result whose only word reaches the right edge of an image 1224 pixels wide.\<close>

definition rightEdgeData :: OcrData where
  "rightEdgeData =
     \<lparr>od_text = ''abcde'',
      od_words = Some [\<lparr>oi_text = ''abcde'', oi_confidence = 90,
                        oi_bbox = Some \<lparr>ob_x0 = 12, ob_y0 = 10, ob_x1 = 1224, ob_y1 = 20\<rparr>\<rparr>],
      od_lines = None\<rparr>"

definition sampleChunk :: "string \<Rightarrow> string \<Rightarrow> real \<Rightarrow> LegacyTextChunk" where
  "sampleChunk ident text x =
     \<lparr>lc_id = ident, lc_text = text, lc_pageNumber = 1,
      lc_geometry = \<lparr>g_x = x, g_y = 10, g_w = 10, g_h = 10\<rparr>\<rparr>"

definition nativeTwo :: "LegacyTextChunk list" where
  "nativeTwo =
     [sampleChunk ''page-1-pdf-0'' ''abcde'' 10, sampleChunk ''page-1-pdf-1'' ''abcde'' 30]"

definition ocrThree :: "LegacyTextChunk list" where
  "ocrThree =
     [sampleChunk ''page-1-ocr-0'' ''abcde'' 10, sampleChunk ''page-1-ocr-1'' ''abcde'' 30,
      sampleChunk ''page-1-ocr-2'' ''abcde'' 50]"

text \<open>Five native chunks of three characters, and five OCR chunks of 4, 4, 4, 3 and 3
  characters: the averages are 3 and 3.6.\<close>

definition nativeFive :: "LegacyTextChunk list" where
  "nativeFive =
     [sampleChunk ''page-1-pdf-0'' ''abc'' 10, sampleChunk ''page-1-pdf-1'' ''abc'' 20,
      sampleChunk ''page-1-pdf-2'' ''abc'' 30, sampleChunk ''page-1-pdf-3'' ''abc'' 40,
      sampleChunk ''page-1-pdf-4'' ''abc'' 50]"

definition ocrFive :: "LegacyTextChunk list" where
  "ocrFive =
     [sampleChunk ''page-1-ocr-0'' ''abcd'' 10, sampleChunk ''page-1-ocr-1'' ''abcd'' 20,
      sampleChunk ''page-1-ocr-2'' ''abcd'' 30, sampleChunk ''page-1-ocr-3'' ''abc'' 40,
      sampleChunk ''page-1-ocr-4'' ''abc'' 50]"

definition fiveWordData :: OcrData where
  "fiveWordData =
     \<lparr>od_text = ''abcd abcd abcd abc abc'',
      od_words = Some [sampleItem ''abcd'' 10, sampleItem ''abcd'' 20, sampleItem ''abcd'' 30,
                       sampleItem ''abc'' 40, sampleItem ''abc'' 50],
      od_lines = None\<rparr>"

text \<open>A scanned page: it loads, and its text content has no items.\<close>

definition scannedPage :: "OcrRun \<Rightarrow> PageLoad" where
  "scannedPage run =
     \<lparr>pl_context = True, pl_render = Returns (), pl_imageUrl = ''data:image/png;base64'',
      pl_textContent = Returns None, pl_viewportWidth = 600, pl_viewportHeight = 800,
      pl_ocr = run\<rparr>"

text \<open>A run whose \<^verbatim>\<open>recognize\<close> call throws.\<close>

definition failingRun :: OcrRun where
  "failingRun =
     \<lparr>or_createWorker = Returns (), or_setParameters = Returns (), or_recognize = Throws,
      or_loadImage = Returns (100, 100), or_terminate = Returns ()\<rparr>"

text \<open>A scan with a single word.\<close>

definition wordScan :: "string \<Rightarrow> PageScan" where
  "wordScan text =
     \<lparr>ps_words = Some [sampleItem text 10], ps_canvasWidth = 100, ps_canvasHeight = 100\<rparr>"

text \<open>The two tokens of the merge example, in percentage units, and a token too narrow to
  be kept.\<close>

definition helloChunk :: LegacyTextChunk where
  "helloChunk = \<lparr>lc_id = ''page-1-pdf-0'', lc_text = ''Hello'', lc_pageNumber = 1,
                 lc_geometry = \<lparr>g_x = 10, g_y = 10, g_w = 20, g_h = 5\<rparr>\<rparr>"

definition worldChunk :: LegacyTextChunk where
  "worldChunk = \<lparr>lc_id = ''page-1-pdf-1'', lc_text = ''World'', lc_pageNumber = 1,
                 lc_geometry = \<lparr>g_x = 32, g_y = 10, g_w = 20, g_h = 5\<rparr>\<rparr>"


text \<open>A legacy chunk at x = 500 on a page 1000 units wide whose width is the double 1e-9,
  and the same for its height.\<close>

definition thinChunk :: LegacyTextChunk where
  "thinChunk = \<lparr>lc_id = ''page-1-pdf-0'', lc_text = ''i'', lc_pageNumber = 1,
                lc_geometry = \<lparr>g_x = 500, g_y = 500, g_w = dbl (1 / 10 ^ 9),
                                g_h = dbl (1 / 10 ^ 9)\<rparr>\<rparr>"

subsection \<open>The three regions of the classifier\<close>

definition headerRegion :: "Block \<Rightarrow> Region" where
  "headerRegion topBlock =
     \<lparr>r_id = ''semantic-header-0'', r_type = RT_header, r_bbox = b_bbox topBlock,
      r_confidence = dbl 0.7, r_blockIds = [b_id topBlock]\<rparr>"

definition footerRegion :: "Block \<Rightarrow> Region" where
  "footerRegion bottomBlock =
     \<lparr>r_id = ''semantic-footer-0'', r_type = RT_footer, r_bbox = b_bbox bottomBlock,
      r_confidence = dbl 0.7, r_blockIds = [b_id bottomBlock]\<rparr>"

definition mainRegion :: "Block list \<Rightarrow> Region" where
  "mainRegion mainBlocks =
     \<lparr>r_id = ''semantic-main-0'', r_type = RT_main_content,
      r_bbox = calculateBoundingBox (map b_bbox mainBlocks), r_confidence = dbl 0.8,
      r_blockIds = map b_id mainBlocks\<rparr>"

subsection \<open>Tolerance of a round trip\<close>

text \<open>\<open>withinTol a b m\<close>: the value \<open>a\<close> reproduces \<open>b\<close> within the tolerance \<open>1e-6\<close> relative
  to the magnitude \<open>m\<close>.\<close>

definition withinTol :: "real \<Rightarrow> real \<Rightarrow> real \<Rightarrow> bool" where
  "withinTol a b m = (\<bar>a - b\<bar> \<le> m / 10 ^ 6)"

section \<open>Verification\<close>

subsection \<open>Rounding\<close>

text \<open>The equations that evaluate a rounded operation on numerals.\<close>

lemmas rnd_eval = rnd_def dbl_def fadd_def fsub_def fmul_def fdiv_def ilog2_def ilogUp.simps
  ilogDown.simps roundEven_def Let_def

lemma ilogUp_bounds: "1 \<le> a \<Longrightarrow> 2 powi ilogUp a \<le> a \<and> a < 2 powi (ilogUp a + 1)"
proof (induction a rule: ilogUp.induct)
  case (1 a)
  show ?case
  proof (cases "2 \<le> a")
    case True
    then have "1 \<le> a / 2" by simp
    then have ih: "2 powi ilogUp (a / 2) \<le> a / 2 \<and> a / 2 < 2 powi (ilogUp (a / 2) + 1)"
      using 1(1) [OF True] by blast
    have e: "ilogUp a = ilogUp (a / 2) + 1" using True by (subst ilogUp.simps) simp
    have p: "(2::real) powi (k + 1) = 2 powi k * 2" for k by (simp add: power_int_add)
    have "2 powi (ilogUp (a / 2) + 1) \<le> a \<and> a < 2 powi (ilogUp (a / 2) + 1) * 2"
      using ih by (simp add: p)
    then show ?thesis unfolding e by (simp only: p)
  next
    case False
    then have e: "ilogUp a = 0" by (subst ilogUp.simps) simp
    show ?thesis unfolding e using False 1(2) by simp
  qed
qed

lemma ilogDown_bounds:
  "0 < a \<Longrightarrow> a < 1 \<Longrightarrow> 2 powi ilogDown a \<le> a \<and> a < 2 powi (ilogDown a + 1)"
proof (induction a rule: ilogDown.induct)
  case (1 a)
  have e: "ilogDown a = ilogDown (2 * a) - 1" using 1(2,3) by (subst ilogDown.simps) simp
  have p: "(2::real) powi (k - 1) = 2 powi k / 2" for k by (simp add: power_int_diff)
  show ?case
  proof (cases "2 * a < 1")
    case True
    have ih: "2 powi ilogDown (2 * a) \<le> 2 * a \<and> 2 * a < 2 powi (ilogDown (2 * a) + 1)"
      using 1(1) 1(2,3) True by simp
    have q: "(2::real) powi (k - 1 + 1) = 2 powi k" for k by simp
    have "2 powi ilogDown (2 * a) / 2 \<le> a \<and> a < 2 powi ilogDown (2 * a)"
      using ih by (simp add: power_int_add)
    then show ?thesis unfolding e by (simp only: p q)
  next
    case False
    then have z: "ilogDown (2 * a) = 0" by (subst ilogDown.simps) simp
    show ?thesis unfolding e z using False 1(3) by (simp add: power_int_minus)
  qed
qed

text \<open>\<open>ilog2\<close> finds the binade of a positive number.\<close>

lemma ilog2_bounds: "0 < a \<Longrightarrow> 2 powi ilog2 a \<le> a \<and> a < 2 powi (ilog2 a + 1)"
  using ilogUp_bounds [of a] ilogDown_bounds [of a] by (cases "1 \<le> a") (simp_all add: ilog2_def)

lemma roundEven_close: "\<bar>of_int (roundEven y) - y\<bar> \<le> 1 / 2"
proof -
  have "of_int \<lfloor>y\<rfloor> \<le> y" "y < of_int \<lfloor>y\<rfloor> + 1" by linarith+
  then show ?thesis by (auto simp: roundEven_def Let_def)
qed

text \<open>A rounding changes a value by at most the fraction \<open>2 ^ - 53\<close> of it.\<close>

lemma rnd_error: "\<bar>rnd x - x\<bar> \<le> \<bar>x\<bar> / 2 ^ 53"
proof (cases "x = 0")
  case True
  then show ?thesis by (simp add: rnd_def)
next
  case False
  define e where "e = ilog2 \<bar>x\<bar> - 52"
  define p where "p = (2::real) powi e"
  have pos: "0 < p" by (simp add: p_def)
  have b: "2 powi ilog2 \<bar>x\<bar> \<le> \<bar>x\<bar>" using ilog2_bounds [of "\<bar>x\<bar>"] False by simp
  have "(2::real) powi ilog2 \<bar>x\<bar> = 2 powi (e + 52)" by (simp add: e_def)
  also have "\<dots> = p * 2 ^ 52" by (simp add: power_int_add p_def)
  finally have lo: "p * 2 ^ 52 \<le> \<bar>x\<bar>" using b by simp
  have r: "rnd x = of_int (roundEven (x / p)) * p"
    using False by (simp add: rnd_def e_def p_def Let_def)
  have "rnd x - x = (of_int (roundEven (x / p)) - x / p) * p"
    using pos by (simp add: r field_simps)
  then have "\<bar>rnd x - x\<bar> = \<bar>of_int (roundEven (x / p)) - x / p\<bar> * p"
    using pos by (simp add: abs_mult)
  also have "\<dots> \<le> (1 / 2) * p"
    using roundEven_close [of "x / p"] pos by (intro mult_right_mono) simp_all
  also have "\<dots> \<le> \<bar>x\<bar> / 2 ^ 53" using lo by simp
  finally show ?thesis .
qed

text \<open>The error of a rounded quotient, and of a rounded value, scaled by the page dimension.\<close>

lemma rnd_div_scaled: "W \<noteq> 0 \<Longrightarrow> \<bar>rnd (a / W) * W - a\<bar> \<le> \<bar>a\<bar> / 2 ^ 53"
proof -
  assume W: "W \<noteq> 0"
  have "rnd (a / W) * W - a = (rnd (a / W) - a / W) * W" using W by (simp add: field_simps)
  then have "\<bar>rnd (a / W) * W - a\<bar> = \<bar>rnd (a / W) - a / W\<bar> * \<bar>W\<bar>" by (simp add: abs_mult)
  also have "\<dots> \<le> (\<bar>a / W\<bar> / 2 ^ 53) * \<bar>W\<bar>"
    by (intro mult_right_mono rnd_error) simp
  also have "\<dots> = \<bar>a\<bar> / 2 ^ 53" using W by simp
  finally show ?thesis .
qed

lemma rnd_scaled: "\<bar>rnd a * W - a * W\<bar> \<le> \<bar>a * W\<bar> / 2 ^ 53"
proof -
  have "\<bar>rnd a * W - a * W\<bar> = \<bar>rnd a - a\<bar> * \<bar>W\<bar>"
    by (simp add: abs_mult [symmetric] left_diff_distrib)
  also have "\<dots> \<le> (\<bar>a\<bar> / 2 ^ 53) * \<bar>W\<bar>"
    by (intro mult_right_mono rnd_error) simp
  also have "\<dots> = \<bar>a * W\<bar> / 2 ^ 53" by (simp add: abs_mult)
  finally show ?thesis .
qed

lemma unscale:
  "W \<noteq> 0 \<Longrightarrow> \<bar>a * W - b * W\<bar> \<le> (\<bar>p * W\<bar> + \<bar>q * W\<bar>) / 10 ^ 6 \<Longrightarrow>
   \<bar>a - b\<bar> \<le> (\<bar>p\<bar> + \<bar>q\<bar>) / 10 ^ 6"
  for W :: real
proof -
  assume W: "W \<noteq> 0" and h: "\<bar>a * W - b * W\<bar> \<le> (\<bar>p * W\<bar> + \<bar>q * W\<bar>) / 10 ^ 6"
  have e1: "\<bar>a * W - b * W\<bar> = \<bar>a - b\<bar> * \<bar>W\<bar>"
    by (simp add: abs_mult [symmetric] left_diff_distrib)
  have e2: "(\<bar>p * W\<bar> + \<bar>q * W\<bar>) / 10 ^ 6 = ((\<bar>p\<bar> + \<bar>q\<bar>) / 10 ^ 6) * \<bar>W\<bar>"
    by (simp add: abs_mult field_simps)
  have "\<bar>a - b\<bar> * \<bar>W\<bar> \<le> ((\<bar>p\<bar> + \<bar>q\<bar>) / 10 ^ 6) * \<bar>W\<bar>"
    using h unfolding e1 e2 .
  moreover have "0 < \<bar>W\<bar>" using W by simp
  ultimately show ?thesis by (rule mult_right_le_imp_le)
qed

text \<open>A position survives the round trip legacy, grounding, legacy within the relative
  tolerance.\<close>

lemma position_legacy_roundtrip:
  "W \<noteq> 0 \<Longrightarrow> \<bar>fmul (fdiv x W) W - x\<bar> \<le> \<bar>x\<bar> / 10 ^ 6"
proof -
  assume W: "W \<noteq> 0"
  define A where "A = rnd (x / W) * W"
  have 1: "\<bar>A - x\<bar> \<le> \<bar>x\<bar> / 2 ^ 53" unfolding A_def by (rule rnd_div_scaled [OF W])
  have 2: "\<bar>rnd A - A\<bar> \<le> \<bar>A\<bar> / 2 ^ 53" by (rule rnd_error)
  have "\<bar>rnd A - x\<bar> \<le> \<bar>x\<bar> / 10 ^ 6" using 1 2 by simp argo
  then show ?thesis by (simp add: fmul_def fdiv_def A_def)
qed

text \<open>A width survives it within the tolerance relative to the larger of the magnitudes of
  position and width.\<close>

lemma extent_legacy_roundtrip:
  "W \<noteq> 0 \<Longrightarrow>
   \<bar>fmul (fsub (fdiv (fadd x w) W) (fdiv x W)) W - w\<bar> \<le> max \<bar>x\<bar> \<bar>w\<bar> / 10 ^ 6"
proof -
  assume W: "W \<noteq> 0"
  define s where "s = rnd (x + w)"
  define r where "r = rnd (s / W)"
  define l where "l = rnd (x / W)"
  define D where "D = rnd (r - l) * W"
  have 1: "\<bar>s - (x + w)\<bar> \<le> \<bar>x + w\<bar> / 2 ^ 53" unfolding s_def by (rule rnd_error)
  have 2: "\<bar>r * W - s\<bar> \<le> \<bar>s\<bar> / 2 ^ 53" unfolding r_def by (rule rnd_div_scaled [OF W])
  have 3: "\<bar>l * W - x\<bar> \<le> \<bar>x\<bar> / 2 ^ 53" unfolding l_def by (rule rnd_div_scaled [OF W])
  have "\<bar>D - (r - l) * W\<bar> \<le> \<bar>(r - l) * W\<bar> / 2 ^ 53" unfolding D_def by (rule rnd_scaled)
  then have 4: "\<bar>D - (r * W - l * W)\<bar> \<le> \<bar>r * W - l * W\<bar> / 2 ^ 53"
    by (simp add: left_diff_distrib)
  have 5: "\<bar>rnd D - D\<bar> \<le> \<bar>D\<bar> / 2 ^ 53" by (rule rnd_error)
  define rW where "rW = r * W"
  define lW where "lW = l * W"
  note f = 1 2 [folded rW_def] 3 [folded lW_def] 4 [folded rW_def lW_def] 5
  have a: "\<bar>s\<bar> \<le> 2 * (\<bar>x\<bar> + \<bar>w\<bar>)" using f(1) by simp argo
  have b: "\<bar>rW - lW - w\<bar> \<le> (\<bar>x\<bar> + \<bar>w\<bar>) * 4 / 2 ^ 53" using f(1,2,3) a by simp argo
  have c: "\<bar>rW - lW\<bar> \<le> 2 * (\<bar>x\<bar> + \<bar>w\<bar>)" using b by simp argo
  have d: "\<bar>D - w\<bar> \<le> (\<bar>x\<bar> + \<bar>w\<bar>) * 6 / 2 ^ 53" using f(4) b c by simp argo
  have e: "\<bar>D\<bar> \<le> 2 * (\<bar>x\<bar> + \<bar>w\<bar>)" using d by simp argo
  have "\<bar>rnd D - w\<bar> \<le> max \<bar>x\<bar> \<bar>w\<bar> / 10 ^ 6" using f(5) d e by simp argo
  then show ?thesis by (simp add: fmul_def fsub_def fdiv_def fadd_def D_def r_def l_def s_def)
qed

text \<open>The same for the round trip grounding, legacy, grounding: the left edge within the
  relative tolerance, the right edge within the tolerance relative to the larger of the
  magnitudes of the two edges.\<close>

lemma position_grounding_roundtrip:
  "W \<noteq> 0 \<Longrightarrow> \<bar>fdiv (fmul l W) W - l\<bar> \<le> \<bar>l\<bar> / 10 ^ 6"
proof -
  assume W: "W \<noteq> 0"
  define A where "A = l * W"
  define x where "x = rnd A"
  have 1: "\<bar>x - A\<bar> \<le> \<bar>A\<bar> / 2 ^ 53" unfolding x_def by (rule rnd_error)
  have 2: "\<bar>rnd (x / W) * W - x\<bar> \<le> \<bar>x\<bar> / 2 ^ 53" by (rule rnd_div_scaled [OF W])
  have "\<bar>rnd (x / W) * W - l * W\<bar> \<le> (\<bar>l * W\<bar> + \<bar>0 * W\<bar>) / 10 ^ 6"
    using 1 2 unfolding A_def by simp argo
  then have "\<bar>rnd (x / W) - l\<bar> \<le> (\<bar>l\<bar> + \<bar>0\<bar>) / 10 ^ 6" by (rule unscale [OF W])
  then show ?thesis by (simp add: fmul_def fdiv_def x_def A_def)
qed

lemma extent_grounding_roundtrip:
  "W \<noteq> 0 \<Longrightarrow>
   \<bar>fdiv (fadd (fmul l W) (fmul (fsub r l) W)) W - r\<bar> \<le> max \<bar>l\<bar> \<bar>r\<bar> / 10 ^ 6"
proof -
  assume W: "W \<noteq> 0"
  define A where "A = l * W"
  define R where "R = r * W"
  define x where "x = rnd A"
  define D where "D = rnd (r - l) * W"
  define w where "w = rnd D"
  define s where "s = rnd (x + w)"
  define r' where "r' = rnd (s / W)"
  have 1: "\<bar>x - A\<bar> \<le> \<bar>A\<bar> / 2 ^ 53" unfolding x_def by (rule rnd_error)
  have "\<bar>D - (r - l) * W\<bar> \<le> \<bar>(r - l) * W\<bar> / 2 ^ 53" unfolding D_def by (rule rnd_scaled)
  then have 2: "\<bar>D - (R - A)\<bar> \<le> \<bar>R - A\<bar> / 2 ^ 53"
    by (simp add: left_diff_distrib R_def A_def)
  have 3: "\<bar>w - D\<bar> \<le> \<bar>D\<bar> / 2 ^ 53" unfolding w_def by (rule rnd_error)
  have 4: "\<bar>s - (x + w)\<bar> \<le> \<bar>x + w\<bar> / 2 ^ 53" unfolding s_def by (rule rnd_error)
  have 5: "\<bar>r' * W - s\<bar> \<le> \<bar>s\<bar> / 2 ^ 53" unfolding r'_def by (rule rnd_div_scaled [OF W])
  define rW where "rW = r' * W"
  note f = 1 2 3 4 5 [folded rW_def]
  have a: "\<bar>D\<bar> \<le> 2 * (\<bar>A\<bar> + \<bar>R\<bar>)" using f(2) by simp argo
  have b: "\<bar>x + w - R\<bar> \<le> (\<bar>A\<bar> + \<bar>R\<bar>) * 4 / 2 ^ 53" using f(1,2,3) a by simp argo
  have c: "\<bar>x + w\<bar> \<le> 2 * (\<bar>A\<bar> + \<bar>R\<bar>)" using b by simp argo
  have d: "\<bar>s - R\<bar> \<le> (\<bar>A\<bar> + \<bar>R\<bar>) * 6 / 2 ^ 53" using f(4) b c by simp argo
  have e: "\<bar>s\<bar> \<le> 2 * (\<bar>A\<bar> + \<bar>R\<bar>)" using d by simp argo
  have "\<bar>rW - R\<bar> \<le> (\<bar>A\<bar> + \<bar>R\<bar>) / (2 * 10 ^ 6)" using f(5) d e by simp argo
  then have "\<bar>r' * W - r * W\<bar> \<le> (\<bar>l / 2 * W\<bar> + \<bar>r / 2 * W\<bar>) / 10 ^ 6"
    by (simp add: rW_def R_def A_def abs_mult)
  then have "\<bar>r' - r\<bar> \<le> (\<bar>l / 2\<bar> + \<bar>r / 2\<bar>) / 10 ^ 6" by (rule unscale [OF W])
  then have "\<bar>r' - r\<bar> \<le> max \<bar>l\<bar> \<bar>r\<bar> / 10 ^ 6" by simp
  then show ?thesis
    by (simp add: fmul_def fsub_def fdiv_def fadd_def r'_def s_def w_def D_def x_def A_def)
qed


subsection \<open>Block clusterer\<close>

lemma splitAtGaps_cases: "\<exists>b bs. splitAtGaps l ms = (l # b) # bs"
  by (induction ms arbitrary: l) (auto, metis consPrefix.simps(2) append_Cons append_Nil)

lemma blocksLoop_split:
  "cur \<noteq> [] \<Longrightarrow>
   (case blocksLoop blocks cur ls of (bs, c) \<Rightarrow> bs @ [c])
     = blocks @ consPrefix (butlast cur) (splitAtGaps (last cur) ls)"
proof (induction ls arbitrary: blocks cur)
  case Nil
  then show ?case by simp
next
  case (Cons m ms)
  obtain b bs where s: "splitAtGaps m ms = (m # b) # bs"
    using splitAtGaps_cases by blast
  show ?case
  proof (cases "verticalGap (last cur) m > dbl 0.03")
    case True
    then show ?thesis using Cons.prems Cons.IH [of "[m]" "blocks @ [cur]"] s by simp
  next
    case False
    then show ?thesis using Cons.prems Cons.IH [of "cur @ [m]" blocks] s by simp
  qed
qed

lemma blocksLoop_open_nonempty: "cur \<noteq> [] \<Longrightarrow> snd (blocksLoop blocks cur ls) \<noteq> []"
  by (induction ls arbitrary: blocks cur) auto

text \<open>The loop of the source computes the split of the input after every large gap.\<close>

lemma groupLinesIntoBlocks_split: "groupLinesIntoBlocks (l # ls) = splitAtGaps l ls"
proof -
  obtain b bs where s: "splitAtGaps l ls = (l # b) # bs"
    using splitAtGaps_cases by blast
  have "(case blocksLoop [] [l] ls of (bs, c) \<Rightarrow> bs @ [c]) = splitAtGaps l ls"
    using blocksLoop_split [of "[l]" "[]" ls] s by simp
  moreover have "snd (blocksLoop [] [l] ls) \<noteq> []"
    by (rule blocksLoop_open_nonempty) simp
  ultimately show ?thesis
    by (simp add: groupLinesIntoBlocks_def split: prod.splits)
qed

lemma concat_splitAtGaps: "concat (splitAtGaps l ls) = l # ls"
proof (induction ls arbitrary: l)
  case Nil
  show ?case by simp
next
  case (Cons m ms)
  obtain b bs where s: "splitAtGaps m ms = (m # b) # bs"
    using splitAtGaps_cases by blast
  show ?case using Cons.IH [of m] s by auto
qed

lemma nonempty_splitAtGaps: "[] \<notin> set (splitAtGaps l ls)"
proof (induction ls arbitrary: l)
  case Nil
  show ?case by simp
next
  case (Cons m ms)
  obtain b bs where s: "splitAtGaps m ms = (m # b) # bs"
    using splitAtGaps_cases by blast
  show ?case using Cons.IH [of m] s by auto
qed

lemma concat_groupLinesIntoBlocks: "concat (groupLinesIntoBlocks lines) = lines"
  by (cases lines) (simp_all add: groupLinesIntoBlocks_def [of "[]"] groupLinesIntoBlocks_split
      concat_splitAtGaps)

lemma nonempty_groupLinesIntoBlocks: "[] \<notin> set (groupLinesIntoBlocks lines)"
  by (cases lines) (simp_all add: groupLinesIntoBlocks_def [of "[]"] groupLinesIntoBlocks_split
      nonempty_splitAtGaps)

text \<open>\<open>blockOf\<close> names the block that holds a position of the concatenation.\<close>

lemma blockOf_holds:
  "i < length (concat bs) \<Longrightarrow> [] \<notin> set bs \<Longrightarrow>
   blockOf bs i < length bs \<and> concat bs ! i \<in> set (bs ! blockOf bs i)"
proof (induction bs arbitrary: i)
  case Nil
  then show ?case by simp
next
  case (Cons b bs)
  show ?case
  proof (cases "i < length b")
    case True
    then show ?thesis by (simp add: nth_append)
  next
    case False
    then have "i - length b < length (concat bs)" using Cons.prems by simp
    then show ?thesis using Cons.IH [of "i - length b"] Cons.prems False
      by (simp add: nth_append)
  qed
qed

lemma blockOf_splitAtGaps:
  "i + 1 < length (l # ls) \<Longrightarrow>
   (blockOf (splitAtGaps l ls) i = blockOf (splitAtGaps l ls) (i + 1))
     = (verticalGap ((l # ls) ! i) ((l # ls) ! (i + 1)) \<le> dbl 0.03)"
proof (induction ls arbitrary: l i)
  case Nil
  then show ?case by simp
next
  case (Cons m ms)
  obtain b bs where s: "splitAtGaps m ms = (m # b) # bs"
    using splitAtGaps_cases by blast
  show ?case
  proof (cases i)
    case 0
    then show ?thesis using s by auto
  next
    case (Suc j)
    then have j: "j + 1 < length (m # ms)" using Cons.prems by simp
    have ih: "(blockOf (splitAtGaps m ms) j = blockOf (splitAtGaps m ms) (j + 1))
      = (verticalGap ((m # ms) ! j) ((m # ms) ! (j + 1)) \<le> dbl 0.03)"
      using Cons.IH [OF j] .
    have nth: "(l # m # ms) ! i = (m # ms) ! j" "(l # m # ms) ! (i + 1) = (m # ms) ! (j + 1)"
      using Suc by simp_all
    show ?thesis
    proof (cases "verticalGap l m > dbl 0.03")
      case True
      then have "blockOf (splitAtGaps l (m # ms)) (Suc k) = Suc (blockOf (splitAtGaps m ms) k)" for k
        by simp
      then have "blockOf (splitAtGaps l (m # ms)) i = Suc (blockOf (splitAtGaps m ms) j)"
        "blockOf (splitAtGaps l (m # ms)) (i + 1) = Suc (blockOf (splitAtGaps m ms) (j + 1))"
        using Suc by simp_all
      then show ?thesis using ih nth by (simp only: nat.inject)
    next
      case False
      then have "blockOf (splitAtGaps l (m # ms)) (Suc k) = blockOf (splitAtGaps m ms) k" for k
        using s by simp
      then have "blockOf (splitAtGaps l (m # ms)) i = blockOf (splitAtGaps m ms) j"
        "blockOf (splitAtGaps l (m # ms)) (i + 1) = blockOf (splitAtGaps m ms) (j + 1)"
        using Suc by simp_all
      then show ?thesis using ih nth by (simp only:)
    qed
  qed
qed

text \<open>Rows 0 to 20 and rows 50 to 70 of a page 1000 pixels high: the gap is 3 percent of
  the page, and the rounded difference \<open>0.05 - 0.02\<close> exceeds the double \<open>0.03\<close>.\<close>

lemma verticalGap_rows:
  "dbl 0.03 < verticalGap (sampleLine i (fdiv 0 1000) (fdiv 20 1000))
                          (sampleLine j (fdiv 50 1000) (fdiv 20 1000))"
  by (simp add: verticalGap_def sampleLine_def rnd_eval)

lemma verticalGap_threshold:
  "verticalGap (sampleLine i 0 0) (sampleLine j (dbl 0.03) (dbl 0.02)) = dbl 0.03"
  by (simp add: verticalGap_def sampleLine_def rnd_eval)

text \<open>The same two rows through the whole page pipeline, as two OCR words on a canvas of
  1000 by 1000: two lines, and a block for each.\<close>

lemma performEnhancedOCR_rows:
  "map (\<lambda>b. map ln_id (b_lines b))
       (ip_blocks (performEnhancedOCR (Some [rowWord 0 20, rowWord 50 70]) 1000 1000 1))
     = [[''line-0''], [''line-1'']]"
  by (simp add: performEnhancedOCR_def ocrWordToWord_def rowWord_def trim_def isSpace_def
      groupWordsIntoLines_def sortBy_def cmpWords_def assembleLines_def calculateBoundingBox_def
      groupLinesIntoBlocks_def verticalGap_def assembleBlocks_def showNat.simps digitChar_def
      rnd_eval)

text \<open>
  Claim C5, as the block clusterer implements it. The vertical gap of two lines is the top
  of the next line minus the bottom of the previous line as the source computes it, in
  double arithmetic (\<open>verticalGap\<close>), and the threshold is the double 0.03. The blocks
  partition the input lines in order, no block is empty, and two consecutive lines
  (positions \<open>i\<close> and \<open>i + 1\<close>) lie in the same block exactly when their vertical gap is at
  most 0.03: a gap above 0.03 always separates them, a gap of at most 0.03 never does.
\<close>

theorem groupLinesIntoBlocks_boundary:
  "i + 1 < length lines \<Longrightarrow>
   concat (groupLinesIntoBlocks lines) = lines
   \<and> [] \<notin> set (groupLinesIntoBlocks lines)
   \<and> (blockOf (groupLinesIntoBlocks lines) i = blockOf (groupLinesIntoBlocks lines) (i + 1))
       = (verticalGap (lines ! i) (lines ! (i + 1)) \<le> dbl 0.03)"
proof -
  assume i: "i + 1 < length lines"
  then obtain l ls where lines: "lines = l # ls" by (cases lines) auto
  have "(blockOf (groupLinesIntoBlocks lines) i = blockOf (groupLinesIntoBlocks lines) (i + 1))
       = (verticalGap (lines ! i) (lines ! (i + 1)) \<le> dbl 0.03)"
    using blockOf_splitAtGaps [of i l ls] i unfolding lines groupLinesIntoBlocks_split .
  then show ?thesis
    using concat_groupLinesIntoBlocks nonempty_groupLinesIntoBlocks by blast
qed

theorem groupLinesIntoBlocks_boundary_witness:
  "(blockOf (groupLinesIntoBlocks [sampleLine 0 (fdiv 0 1000) (fdiv 20 1000),
                                   sampleLine 1 (fdiv 50 1000) (fdiv 20 1000)]) 0
      = blockOf (groupLinesIntoBlocks [sampleLine 0 (fdiv 0 1000) (fdiv 20 1000),
                                       sampleLine 1 (fdiv 50 1000) (fdiv 20 1000)]) (0 + 1))
    = (verticalGap (sampleLine 0 (fdiv 0 1000) (fdiv 20 1000))
                   (sampleLine 1 (fdiv 50 1000) (fdiv 20 1000)) \<le> dbl 0.03)
   \<and> dbl 0.03 < verticalGap (sampleLine 0 (fdiv 0 1000) (fdiv 20 1000))
                              (sampleLine 1 (fdiv 50 1000) (fdiv 20 1000))"
  using groupLinesIntoBlocks_boundary
          [of 0 "[sampleLine 0 (fdiv 0 1000) (fdiv 20 1000),
                  sampleLine 1 (fdiv 50 1000) (fdiv 20 1000)]"]
        verticalGap_rows
  by simp

text \<open>
  Claim C5 as stated fails on the boundary: two consecutive lines whose vertical gap is
  exactly the threshold 0.03 (a gap greater than or equal to the threshold) are placed in
  the same block, since the source breaks a block only on \<^verbatim>\<open>verticalGap > 0.03\<close>.
\<close>

theorem groupLinesIntoBlocks_gap_equal_threshold:
  "verticalGap (sampleLine 0 0 0) (sampleLine 1 (dbl 0.03) (dbl 0.02)) \<ge> dbl 0.03
   \<and> groupLinesIntoBlocks [sampleLine 0 0 0, sampleLine 1 (dbl 0.03) (dbl 0.02)]
       = [[sampleLine 0 0 0, sampleLine 1 (dbl 0.03) (dbl 0.02)]]
   \<and> blockOf (groupLinesIntoBlocks [sampleLine 0 0 0, sampleLine 1 (dbl 0.03) (dbl 0.02)]) 0
       = blockOf (groupLinesIntoBlocks [sampleLine 0 0 0, sampleLine 1 (dbl 0.03) (dbl 0.02)]) 1"
  using verticalGap_threshold [of 0 1] by (simp add: groupLinesIntoBlocks_def)

subsection \<open>Semantic region classifier\<close>




lemma region_types [simp]:
  "r_type (headerRegion b) = RT_header" "r_type (footerRegion b) = RT_footer"
  "r_type (mainRegion bs) = RT_main_content"
  by (simp_all add: headerRegion_def footerRegion_def mainRegion_def)









subsection \<open>Trimming and collapsing white space\<close>

lemma trim_Nil [simp]: "trim [] = []"
  by (simp add: trim_def)

lemma all_dropWhile [simp]: "(\<forall>x\<in>set (dropWhile P s). P x) = (\<forall>x\<in>set s. P x)"
  by (induction s) auto













subsection \<open>Line clusterer of the legacy processor\<close>





text \<open>
  Claim C6. On the two tokens \<^verbatim>\<open>Hello\<close> (x = 10, y = 10, w = 20, h = 5) and \<^verbatim>\<open>World\<close> (x = 32,
  y = 10, w = 20, h = 5), in either input order, \<^verbatim>\<open>groupNearbyTextChunks\<close> returns exactly
  one chunk, with the text \<^verbatim>\<open>Hello World\<close> (one space between the words) and the box x = 10,
  y = 10, w = 42, h = 5, the union of the two boxes; it keeps the id and the page number of
  the first token.
\<close>

theorem groupNearbyTextChunks_merge_example:
  "groupNearbyTextChunks [helloChunk, worldChunk]
     = [\<lparr>lc_id = ''page-1-pdf-0'', lc_text = ''Hello World'', lc_pageNumber = 1,
         lc_geometry = \<lparr>g_x = 10, g_y = 10, g_w = 42, g_h = 5\<rparr>\<rparr>]
   \<and> groupNearbyTextChunks [worldChunk, helloChunk]
     = [\<lparr>lc_id = ''page-1-pdf-0'', lc_text = ''Hello World'', lc_pageNumber = 1,
         lc_geometry = \<lparr>g_x = 10, g_y = 10, g_w = 42, g_h = 5\<rparr>\<rparr>]"
  by (simp add: groupNearbyTextChunks_def groupInOrder_def sortBy_def cmpChunks_def
      mergeChunk_def keepGroup_def cleanText_def trim_def isSpace_def helloChunk_def
      worldChunk_def Let_def)

subsection \<open>Coordinate transforms\<close>

text \<open>The two compositions, written out.\<close>

lemma legacy_roundtrip_value:
  "transformGroundingToLegacy (transformLegacyToGrounding lc W H) W H
     = Inr \<lparr>lc_id = lc_id lc, lc_text = lc_text lc, lc_pageNumber = lc_pageNumber lc,
            lc_geometry =
              \<lparr>g_x = fmul (fdiv (g_x (lc_geometry lc)) W) W,
               g_y = fmul (fdiv (g_y (lc_geometry lc)) H) H,
               g_w = fmul (fsub (fdiv (fadd (g_x (lc_geometry lc)) (g_w (lc_geometry lc))) W)
                                (fdiv (g_x (lc_geometry lc)) W)) W,
               g_h = fmul (fsub (fdiv (fadd (g_y (lc_geometry lc)) (g_h (lc_geometry lc))) H)
                                (fdiv (g_y (lc_geometry lc)) H)) H\<rparr>\<rparr>"
  by (simp add: transformGroundingToLegacy_def transformLegacyToGrounding_def Let_def)

lemma grounding_to_legacy_value:
  "transformGroundingToLegacy (c\<lparr>tc_grounding := g # gs\<rparr>) W H
     = Inr \<lparr>lc_id = tc_chunk_id c, lc_text = tc_text c, lc_pageNumber = gr_page g + 1,
            lc_geometry = \<lparr>g_x = fmul (gb_l (gr_box g)) W, g_y = fmul (gb_t (gr_box g)) H,
                            g_w = fmul (fsub (gb_r (gr_box g)) (gb_l (gr_box g))) W,
                            g_h = fmul (fsub (gb_b (gr_box g)) (gb_t (gr_box g))) H\<rparr>\<rparr>"
  by (simp add: transformGroundingToLegacy_def Let_def)

lemma grounding_roundtrip_value:
  "transformGroundingToLegacy (c\<lparr>tc_grounding := g # gs\<rparr>) W H = Inr legacy \<Longrightarrow>
   tc_grounding (transformLegacyToGrounding legacy W H)
     = [\<lparr>gr_page = gr_page g,
         gr_box =
           \<lparr>gb_l = fdiv (fmul (gb_l (gr_box g)) W) W,
            gb_t = fdiv (fmul (gb_t (gr_box g)) H) H,
            gb_r = fdiv (fadd (fmul (gb_l (gr_box g)) W)
                              (fmul (fsub (gb_r (gr_box g)) (gb_l (gr_box g))) W)) W,
            gb_b = fdiv (fadd (fmul (gb_t (gr_box g)) H)
                              (fmul (fsub (gb_b (gr_box g)) (gb_t (gr_box g))) H)) H\<rparr>\<rparr>]"
  unfolding grounding_to_legacy_value
  by (auto simp: transformLegacyToGrounding_def Let_def)

text \<open>A chunk at 500 whose width and height are the double \<open>1e-9\<close>, on a page of 1000 by 1000:
  its right edge \<open>500.000000001\<close> keeps 44 bits behind the point, and the width read back from
  the normalized box is \<open>9.999778782798785e-10\<close>.\<close>

lemma thinChunk_grounding:
  "tc_grounding (transformLegacyToGrounding thinChunk 1000 1000)
     = [\<lparr>gr_page = 0,
         gr_box = \<lparr>gb_l = 1 / 2, gb_t = 1 / 2, gb_r = 4503599627379503 / 2 ^ 53,
                    gb_b = 4503599627379503 / 2 ^ 53\<rparr>\<rparr>]"
  by (simp add: transformLegacyToGrounding_def thinChunk_def rnd_eval)

lemma thinChunk_roundtrip:
  "transformGroundingToLegacy (transformLegacyToGrounding thinChunk 1000 1000) 1000 1000
     = Inr (thinChunk\<lparr>lc_geometry := \<lparr>g_x = 500, g_y = 500, g_w = 1125875 / 2 ^ 50,
                                          g_h = 1125875 / 2 ^ 50\<rparr>\<rparr>)"
  by (simp add: legacy_roundtrip_value) (simp add: thinChunk_def rnd_eval)

text \<open>
  Claim C3 as stated fails in the legacy-to-grounding-to-legacy direction. The chunk at
  x = y = 500 of width and height \<open>1e-9\<close> on a page of 1000 by 1000 has a normalized box with
  all four coordinates in [0,1]; the round trip returns the width
  \<open>1125875 / 2^50 = 9.999778782798785e-10\<close>, which differs from the original width by more
  than \<open>1e-6\<close> times the original width (by \<open>2.2e-5\<close> times it).
\<close>

theorem transform_roundtrip_width_not_relative:
  "tc_grounding (transformLegacyToGrounding thinChunk 1000 1000)
     = [\<lparr>gr_page = 0,
         gr_box = \<lparr>gb_l = 1 / 2, gb_t = 1 / 2, gb_r = 4503599627379503 / 2 ^ 53,
                    gb_b = 4503599627379503 / 2 ^ 53\<rparr>\<rparr>]
   \<and> (0::real) \<le> 4503599627379503 / 2 ^ 53 \<and> (4503599627379503::real) / 2 ^ 53 \<le> 1
   \<and> transformGroundingToLegacy (transformLegacyToGrounding thinChunk 1000 1000) 1000 1000
       = Inr (thinChunk\<lparr>lc_geometry := \<lparr>g_x = 500, g_y = 500, g_w = 1125875 / 2 ^ 50,
                                            g_h = 1125875 / 2 ^ 50\<rparr>\<rparr>)
   \<and> \<not> withinTol (1125875 / 2 ^ 50) (g_w (lc_geometry thinChunk))
                    \<bar>g_w (lc_geometry thinChunk)\<bar>"
proof -
  have "\<not> withinTol (1125875 / 2 ^ 50) (g_w (lc_geometry thinChunk))
                    \<bar>g_w (lc_geometry thinChunk)\<bar>"
    by (simp add: withinTol_def thinChunk_def rnd_eval)
  then show ?thesis
    using thinChunk_grounding thinChunk_roundtrip by simp
qed

text \<open>
  Claim C3, amended. The arithmetic is the rounded arithmetic of doubles with an unbounded
  exponent range, and \<open>withinTol a b m\<close> says that \<open>a\<close> and \<open>b\<close> differ by at most \<open>1e-6\<close>
  times \<open>m\<close>. For positive page dimensions:
  \<^item> legacy to grounding to legacy returns a chunk with the same id, text and page number;
    its position \<open>x\<close>, \<open>y\<close> is within the relative tolerance \<open>1e-6\<close> of the original, and its
    width and height are within \<open>1e-6\<close> times the larger of the magnitudes of the original
    position and extent on that axis;
  \<^item> grounding to legacy to grounding returns one grounding, on the page of the first
    grounding; its left and top are within the relative tolerance \<open>1e-6\<close> of the original,
    and its right and bottom are within \<open>1e-6\<close> times the larger of the magnitudes of the
    two original edges on that axis (which is the relative tolerance for a box with
    \<open>0 \<le> l \<le> r\<close> and \<open>0 \<le> t \<le> b\<close>).
\<close>

theorem transform_roundtrip_tolerance:
  "0 < pageWidth \<Longrightarrow> 0 < pageHeight \<Longrightarrow>
   (\<exists>back.
      transformGroundingToLegacy (transformLegacyToGrounding lc pageWidth pageHeight)
          pageWidth pageHeight = Inr back
      \<and> lc_id back = lc_id lc \<and> lc_text back = lc_text lc
      \<and> lc_pageNumber back = lc_pageNumber lc
      \<and> withinTol (g_x (lc_geometry back)) (g_x (lc_geometry lc)) \<bar>g_x (lc_geometry lc)\<bar>
      \<and> withinTol (g_y (lc_geometry back)) (g_y (lc_geometry lc)) \<bar>g_y (lc_geometry lc)\<bar>
      \<and> withinTol (g_w (lc_geometry back)) (g_w (lc_geometry lc))
            (max \<bar>g_x (lc_geometry lc)\<bar> \<bar>g_w (lc_geometry lc)\<bar>)
      \<and> withinTol (g_h (lc_geometry back)) (g_h (lc_geometry lc))
            (max \<bar>g_y (lc_geometry lc)\<bar> \<bar>g_h (lc_geometry lc)\<bar>))
   \<and> (\<exists>legacy g'.
        transformGroundingToLegacy (c\<lparr>tc_grounding := g # gs\<rparr>) pageWidth pageHeight
          = Inr legacy
        \<and> tc_grounding (transformLegacyToGrounding legacy pageWidth pageHeight) = [g']
        \<and> gr_page g' = gr_page g
        \<and> withinTol (gb_l (gr_box g')) (gb_l (gr_box g)) \<bar>gb_l (gr_box g)\<bar>
        \<and> withinTol (gb_t (gr_box g')) (gb_t (gr_box g)) \<bar>gb_t (gr_box g)\<bar>
        \<and> withinTol (gb_r (gr_box g')) (gb_r (gr_box g))
              (max \<bar>gb_l (gr_box g)\<bar> \<bar>gb_r (gr_box g)\<bar>)
        \<and> withinTol (gb_b (gr_box g')) (gb_b (gr_box g))
              (max \<bar>gb_t (gr_box g)\<bar> \<bar>gb_b (gr_box g)\<bar>))"
proof -
  assume "0 < pageWidth" and "0 < pageHeight"
  then have W: "pageWidth \<noteq> 0" and H: "pageHeight \<noteq> 0" by simp_all
  have first: "\<exists>back.
      transformGroundingToLegacy (transformLegacyToGrounding lc pageWidth pageHeight)
          pageWidth pageHeight = Inr back
      \<and> lc_id back = lc_id lc \<and> lc_text back = lc_text lc
      \<and> lc_pageNumber back = lc_pageNumber lc
      \<and> withinTol (g_x (lc_geometry back)) (g_x (lc_geometry lc)) \<bar>g_x (lc_geometry lc)\<bar>
      \<and> withinTol (g_y (lc_geometry back)) (g_y (lc_geometry lc)) \<bar>g_y (lc_geometry lc)\<bar>
      \<and> withinTol (g_w (lc_geometry back)) (g_w (lc_geometry lc))
            (max \<bar>g_x (lc_geometry lc)\<bar> \<bar>g_w (lc_geometry lc)\<bar>)
      \<and> withinTol (g_h (lc_geometry back)) (g_h (lc_geometry lc))
            (max \<bar>g_y (lc_geometry lc)\<bar> \<bar>g_h (lc_geometry lc)\<bar>)"
    unfolding legacy_roundtrip_value withinTol_def
    using position_legacy_roundtrip [OF W] position_legacy_roundtrip [OF H]
          extent_legacy_roundtrip [OF W] extent_legacy_roundtrip [OF H]
    by simp
  obtain legacy where
    l: "transformGroundingToLegacy (c\<lparr>tc_grounding := g # gs\<rparr>) pageWidth pageHeight
          = Inr legacy"
    unfolding grounding_to_legacy_value by simp
  have "\<exists>g'. tc_grounding (transformLegacyToGrounding legacy pageWidth pageHeight) = [g']
        \<and> gr_page g' = gr_page g
        \<and> withinTol (gb_l (gr_box g')) (gb_l (gr_box g)) \<bar>gb_l (gr_box g)\<bar>
        \<and> withinTol (gb_t (gr_box g')) (gb_t (gr_box g)) \<bar>gb_t (gr_box g)\<bar>
        \<and> withinTol (gb_r (gr_box g')) (gb_r (gr_box g))
              (max \<bar>gb_l (gr_box g)\<bar> \<bar>gb_r (gr_box g)\<bar>)
        \<and> withinTol (gb_b (gr_box g')) (gb_b (gr_box g))
              (max \<bar>gb_t (gr_box g)\<bar> \<bar>gb_b (gr_box g)\<bar>)"
    unfolding grounding_roundtrip_value [OF l] withinTol_def
    using position_grounding_roundtrip [OF W] position_grounding_roundtrip [OF H]
          extent_grounding_roundtrip [OF W] extent_grounding_roundtrip [OF H]
    by simp
  then have second: "\<exists>legacy g'.
        transformGroundingToLegacy (c\<lparr>tc_grounding := g # gs\<rparr>) pageWidth pageHeight
          = Inr legacy
        \<and> tc_grounding (transformLegacyToGrounding legacy pageWidth pageHeight) = [g']
        \<and> gr_page g' = gr_page g
        \<and> withinTol (gb_l (gr_box g')) (gb_l (gr_box g)) \<bar>gb_l (gr_box g)\<bar>
        \<and> withinTol (gb_t (gr_box g')) (gb_t (gr_box g)) \<bar>gb_t (gr_box g)\<bar>
        \<and> withinTol (gb_r (gr_box g')) (gb_r (gr_box g))
              (max \<bar>gb_l (gr_box g)\<bar> \<bar>gb_r (gr_box g)\<bar>)
        \<and> withinTol (gb_b (gr_box g')) (gb_b (gr_box g))
              (max \<bar>gb_t (gr_box g)\<bar> \<bar>gb_b (gr_box g)\<bar>)"
    using l by (intro exI [of _ legacy]) simp
  show ?thesis using first second by (rule conjI)
qed

text \<open>On the chunk of the counterexample the width read back, \<open>1125875 / 2^50\<close>, is within
  \<open>1e-6\<close> times 500, the magnitude of the position.\<close>

theorem transform_roundtrip_tolerance_witness:
  "(0::real) < 1000
   \<and> withinTol (1125875 / 2 ^ 50) (g_w (lc_geometry thinChunk))
       (max \<bar>g_x (lc_geometry thinChunk)\<bar> \<bar>g_w (lc_geometry thinChunk)\<bar>)
   \<and> withinTol 500 (g_x (lc_geometry thinChunk)) \<bar>g_x (lc_geometry thinChunk)\<bar>"
  using transform_roundtrip_tolerance [of 1000 1000 thinChunk, THEN conjunct1]
  unfolding thinChunk_roundtrip
  by auto

text \<open>
  Claim C10. For a chunk with at least one grounding, \<^verbatim>\<open>transformGroundingToLegacy\<close> returns
  the same legacy chunk whatever groundings follow the first one: the page number is the
  page of the first grounding plus one, and the geometry is computed from the box of the
  first grounding alone.
\<close>

theorem transformGroundingToLegacy_first_grounding:
  "transformGroundingToLegacy (c\<lparr>tc_grounding := g # gs\<rparr>) pageWidth pageHeight
     = transformGroundingToLegacy (c\<lparr>tc_grounding := [g]\<rparr>) pageWidth pageHeight
   \<and> transformGroundingToLegacy (c\<lparr>tc_grounding := g # gs\<rparr>) pageWidth pageHeight
     = Inr \<lparr>lc_id = tc_chunk_id c, lc_text = tc_text c, lc_pageNumber = gr_page g + 1,
            lc_geometry =
              \<lparr>g_x = fmul (gb_l (gr_box g)) pageWidth, g_y = fmul (gb_t (gr_box g)) pageHeight,
               g_w = fmul (fsub (gb_r (gr_box g)) (gb_l (gr_box g))) pageWidth,
               g_h = fmul (fsub (gb_b (gr_box g)) (gb_t (gr_box g))) pageHeight\<rparr>\<rparr>"
  by (simp add: transformGroundingToLegacy_def Let_def)

subsection \<open>OCR granularities\<close>

lemma enumerate_eq_Nil [simp]: "(enumerate k xs = []) = (xs = [])"
  by (cases xs) simp_all

text \<open>One step of the loop pushes the chunk of the item exactly when the item is accepted.\<close>

lemma pushOcrItem_accepts:
  "pushOcrItem tag n iw ih (acc, k) item
     = (if acceptsItem iw ih item then (acc @ [itemChunk tag n iw ih k item], k + 1) else (acc, k))"
  by (auto simp: pushOcrItem_def acceptsItem_def itemChunk_def split: option.splits)

lemma foldl_pushOcrItem:
  "foldl (pushOcrItem tag n iw ih) (acc, k) items
     = (acc @ levelChunks tag n iw ih k items, k + length (filter (acceptsItem iw ih) items))"
proof (induction items arbitrary: acc k)
  case Nil
  show ?case by (simp add: levelChunks_def)
next
  case (Cons item items)
  show ?case
    by (simp add: pushOcrItem_accepts Cons.IH) (simp add: levelChunks_def)
qed

lemma levelChunks_empty:
  "(levelChunks tag n iw ih k items = []) = (\<not> (\<exists>item\<in>set items. acceptsItem iw ih item))"
  by (auto simp: levelChunks_def filter_empty_conv)

text \<open>The chunks of a granularity carry the trimmed texts of the accepted items, in order.\<close>

lemma levelChunks_texts:
  "map lc_text (levelChunks tag n iw ih k items)
     = map (\<lambda>item. trim (oi_text item)) (filter (acceptsItem iw ih) items)"
proof -
  have "map lc_text (levelChunks tag n iw ih k items)
      = map (\<lambda>item. trim (oi_text item))
          (map snd (enumerate k (filter (acceptsItem iw ih) items)))"
    unfolding levelChunks_def by (simp add: itemChunk_def split_def comp_def del: map_snd_enumerate)
  then show ?thesis by simp
qed

lemma items_pass:
  "(case xs of None \<Rightarrow> ([], 0)
     | Some items \<Rightarrow>
         if length items > 0 then foldl (pushOcrItem tag n iw ih) ([], 0) items else ([], 0))
   = (levelChunks tag n iw ih 0 (itemsOf xs), length (filter (acceptsItem iw ih) (itemsOf xs)))"
  by (cases xs) (auto simp: itemsOf_def foldl_pushOcrItem levelChunks_def)

lemma recognizedChunks_levels:
  "recognizedChunks (Some d) iw ih n
     = (if trim (od_text d) = [] then []
        else if \<exists>w\<in>set (itemsOf (od_words d)). acceptsItem iw ih w
             then levelChunks ''-ocr-'' n iw ih 0 (itemsOf (od_words d))
        else if \<exists>l\<in>set (itemsOf (od_lines d)). acceptsItem iw ih l
             then levelChunks ''-ocr-line-'' n iw ih 0 (itemsOf (od_lines d))
        else [fullPageChunk n (od_text d)])"
proof -
  have t: "od_text d = [] \<Longrightarrow> trim (od_text d) = []" by (simp add: trim_def)
  let ?W = "levelChunks ''-ocr-'' n iw ih 0 (itemsOf (od_words d))"
  let ?L = "levelChunks ''-ocr-line-'' n iw ih 0 (itemsOf (od_lines d))"
  have W: "(?W = []) = (\<not> (\<exists>w\<in>set (itemsOf (od_words d)). acceptsItem iw ih w))"
    by (rule levelChunks_empty)
  have L: "(?L = []) = (\<not> (\<exists>w\<in>set (itemsOf (od_lines d)). acceptsItem iw ih w))"
    by (rule levelChunks_empty)
  have nW: "?W = [] \<Longrightarrow> filter (acceptsItem iw ih) (itemsOf (od_words d)) = []"
    by (simp add: levelChunks_def)
  show ?thesis
  proof (cases "trim (od_text d) = []")
    case True
    then show ?thesis by (simp add: recognizedChunks_def)
  next
    case False
    then have ne: "od_text d \<noteq> []" using t by blast
    show ?thesis
    proof (cases "?W = []")
      case wf: False
      then show ?thesis using False ne W
        by (simp add: recognizedChunks_def items_pass Let_def)
    next
      case wt: True
      have "foldl (pushOcrItem ''-ocr-line-'' n iw ih) ([], 0) ls
        = (levelChunks ''-ocr-line-'' n iw ih 0 ls, length (filter (acceptsItem iw ih) ls))" for ls
        by (simp add: foldl_pushOcrItem)
      then show ?thesis using False ne W L wt nW
        by (cases "od_lines d")
           (auto simp: recognizedChunks_def items_pass Let_def itemsOf_def levelChunks_def)
    qed
  qed
qed

lemma performOCR_recognized:
  "performOCR (recognizedRun data iw ih) n = Inr (recognizedChunks data iw ih n)"
  by (simp add: performOCR_def recognizedRun_def)

text \<open>The sample words on an image of 100 by 100: the percentages are computed without
  rounding error, and the word is inside the page.\<close>

lemma rnd_tens:
  "rnd 10 = 10" "rnd 20 = 20" "rnd 30 = 30" "rnd 40 = 40" "rnd 50 = 50" "rnd 60 = 60"
  by (simp_all add: rnd_eval)

lemma percent_tens:
  "fmul (fdiv 10 100) 100 = 10" "fmul (fdiv 20 100) 100 = 20" "fmul (fdiv 30 100) 100 = 30"
  "fmul (fdiv 40 100) 100 = 40" "fmul (fdiv 50 100) 100 = 50"
  by (simp_all add: rnd_eval)

lemma sampleItem_geometry:
  "x \<in> {10, 20, 30, 40, 50} \<Longrightarrow>
   oi_bbox (sampleItem t x) = Some \<lparr>ob_x0 = x, ob_y0 = 10, ob_x1 = x + 10, ob_y1 = 20\<rparr>
   \<and> itemGeometry 100 100 \<lparr>ob_x0 = x, ob_y0 = 10, ob_x1 = x + 10, ob_y1 = 20\<rparr>
       = \<lparr>g_x = x, g_y = 10, g_w = 10, g_h = 10\<rparr>
   \<and> inBounds \<lparr>g_x = x, g_y = 10, g_w = 10, g_h = 10\<rparr>"
  by (auto simp: sampleItem_def itemGeometry_def inBounds_def fsub_def fadd_def rnd_tens
      percent_tens)

lemma sampleItem_accepted:
  "x \<in> {10, 20, 30, 40, 50} \<Longrightarrow> acceptsItem 100 100 (sampleItem t x) = (trim t \<noteq> [])"
  using sampleItem_geometry [of x t]
  by (simp add: acceptsItem_def) (simp add: sampleItem_def)

lemma sampleItem_chunk:
  "x \<in> {10, 20, 30, 40, 50} \<Longrightarrow>
   itemChunk tag n 100 100 k (sampleItem t x)
     = \<lparr>lc_id = ocrChunkId n tag k, lc_text = trim t, lc_pageNumber = n,
        lc_geometry = \<lparr>g_x = x, g_y = 10, g_w = 10, g_h = 10\<rparr>\<rparr>"
  using sampleItem_geometry [of x t]
  by (simp add: itemChunk_def) (simp add: sampleItem_def)

lemma trim_samples: "trim ''abcde'' = ''abcde''" "trim ''abcd'' = ''abcd''" "trim ''abc'' = ''abc''"
  by (simp_all add: trim_def isSpace_def)

lemma ocrChunkId_samples:
  "ocrChunkId 1 ''-ocr-'' 0 = ''page-1-ocr-0''"
  "ocrChunkId 1 ''-ocr-'' (Suc 0) = ''page-1-ocr-1''"
  "ocrChunkId 1 ''-ocr-'' (Suc (Suc 0)) = ''page-1-ocr-2''"
  "ocrChunkId 1 ''-ocr-'' (Suc (Suc (Suc 0))) = ''page-1-ocr-3''"
  "ocrChunkId 1 ''-ocr-'' (Suc (Suc (Suc (Suc 0)))) = ''page-1-ocr-4''"
  by (simp_all add: ocrChunkId_def showInt_def showNat.simps digitChar_def)

lemma levelChunks_threeWords:
  "levelChunks ''-ocr-'' 1 100 100 0 (itemsOf (od_words threeWordData)) = ocrThree"
  by (simp add: levelChunks_def threeWordData_def itemsOf_def sampleItem_accepted
      sampleItem_chunk trim_samples ocrThree_def sampleChunk_def ocrChunkId_samples)

lemma levelChunks_fiveWords:
  "levelChunks ''-ocr-'' 1 100 100 0 (itemsOf (od_words fiveWordData)) = ocrFive"
  by (simp add: levelChunks_def fiveWordData_def itemsOf_def sampleItem_accepted
      sampleItem_chunk trim_samples ocrFive_def sampleChunk_def ocrChunkId_samples)

lemma performOCR_threeWords:
  "performOCR (recognizedRun (Some threeWordData) 100 100) 1 = Inr ocrThree"
proof -
  have t: "trim (od_text threeWordData) \<noteq> []"
    by (simp add: threeWordData_def trim_def isSpace_def)
  have w: "\<exists>w\<in>set (itemsOf (od_words threeWordData)). acceptsItem 100 100 w"
    by (simp add: threeWordData_def itemsOf_def sampleItem_accepted trim_samples)
  show ?thesis
    unfolding performOCR_recognized recognizedChunks_levels levelChunks_threeWords
    using t w by simp
qed

lemma performOCR_fiveWords:
  "performOCR (recognizedRun (Some fiveWordData) 100 100) 1 = Inr ocrFive"
proof -
  have t: "trim (od_text fiveWordData) \<noteq> []"
    by (simp add: fiveWordData_def trim_def isSpace_def)
  have w: "\<exists>w\<in>set (itemsOf (od_words fiveWordData)). acceptsItem 100 100 w"
    by (simp add: fiveWordData_def itemsOf_def sampleItem_accepted trim_samples)
  show ?thesis
    unfolding performOCR_recognized recognizedChunks_levels levelChunks_fiveWords
    using t w by simp
qed

text \<open>The acceptance filter tests rounded sums. A word from pixel 12 to pixel 1224 of an image
  1224 pixels wide has \<open>x = 0.9803921568627451\<close> and \<open>w = 99.01960784313727\<close> in percent; their
  rounded sum is \<open>100.00000000000001\<close>, so the word is rejected and the page falls back to the
  whole-page chunk.\<close>

lemma rightEdge_geometry:
  "itemGeometry 1224 100 \<lparr>ob_x0 = 12, ob_y0 = 10, ob_x1 = 1224, ob_y1 = 20\<rparr>
     = \<lparr>g_x = 8830587504648031 / 2 ^ 53, g_y = 10, g_w = 3483942726443169 / 2 ^ 45, g_h = 10\<rparr>"
  by (simp add: itemGeometry_def rnd_eval)

lemma rightEdge_sum:
  "fadd (8830587504648031 / 2 ^ 53) (3483942726443169 / 2 ^ 45) = 7036874417766401 / 2 ^ 46"
  by (simp add: rnd_eval)

lemma rightEdge_rejected:
  "\<not> acceptsItem 1224 100
       \<lparr>oi_text = ''abcde'', oi_confidence = 90,
        oi_bbox = Some \<lparr>ob_x0 = 12, ob_y0 = 10, ob_x1 = 1224, ob_y1 = 20\<rparr>\<rparr>"
  using rightEdge_sum by (simp add: acceptsItem_def rightEdge_geometry inBounds_def)

lemma performOCR_right_edge:
  "performOCR (recognizedRun (Some rightEdgeData) 1224 100) 1
     = Inr [fullPageChunk 1 ''abcde'']"
proof -
  have t: "trim (od_text rightEdgeData) \<noteq> []" "od_text rightEdgeData = ''abcde''"
    by (simp_all add: rightEdgeData_def trim_samples)
  have w: "\<not> (\<exists>w\<in>set (itemsOf (od_words rightEdgeData)). acceptsItem 1224 100 w)"
    using rightEdge_rejected by (simp add: rightEdgeData_def itemsOf_def)
  have l: "\<not> (\<exists>l\<in>set (itemsOf (od_lines rightEdgeData)). acceptsItem 1224 100 l)"
    by (simp add: rightEdgeData_def itemsOf_def)
  show ?thesis
    unfolding performOCR_recognized recognizedChunks_levels
    using t w l by simp
qed

text \<open>
  Claim C7, as \<^verbatim>\<open>performOCR\<close> implements it. The acceptance filter (\<open>acceptsItem\<close>) is the
  test of the source on the percentages it computes in double arithmetic: text not blank,
  confidence above 30, a box, and the box inside the page. For an OCR result (every
  collaborator call returns) whose page text is not blank:
  \<^item> when some word passes the acceptance filter, the result is the word-level chunks: the
    accepted words in order, numbered from 0;
  \<^item> otherwise, when some line passes the filter, the result is the line-level chunks;
  \<^item> otherwise the result is the single whole-page chunk.
  For an OCR result whose page text is empty or blank the result is empty, whatever words
  and lines it reports, and so it is when the engine returns no data.
\<close>

theorem performOCR_granularity:
  "performOCR (recognizedRun (Some d) iw ih) n
     = Inr (if trim (od_text d) = [] then []
            else if \<exists>w\<in>set (itemsOf (od_words d)). acceptsItem iw ih w
                 then levelChunks ''-ocr-'' n iw ih 0 (itemsOf (od_words d))
            else if \<exists>l\<in>set (itemsOf (od_lines d)). acceptsItem iw ih l
                 then levelChunks ''-ocr-line-'' n iw ih 0 (itemsOf (od_lines d))
            else [fullPageChunk n (od_text d)])
   \<and> performOCR (recognizedRun None iw ih) n = Inr []"
  by (simp add: performOCR_def recognizedRun_def recognizedChunks_levels)
     (simp add: recognizedChunks_def)

theorem performOCR_granularity_witness:
  "performOCR (recognizedRun (Some threeWordData) 100 100) 1 = Inr ocrThree
   \<and> (\<exists>w\<in>set (itemsOf (od_words threeWordData)). acceptsItem 100 100 w)"
proof -
  have t: "trim (od_text threeWordData) \<noteq> []"
    by (simp add: threeWordData_def trim_def isSpace_def)
  have w: "\<exists>w\<in>set (itemsOf (od_words threeWordData)). acceptsItem 100 100 w"
    by (simp add: threeWordData_def itemsOf_def sampleItem_accepted trim_samples)
  show ?thesis
    using performOCR_granularity [of threeWordData 100 100 1, THEN conjunct1] t w
    by (simp add: levelChunks_threeWords)
qed

text \<open>
  Claim C7 as stated fails for an OCR result whose page text is empty: a reported word
  passes the acceptance filter, and \<^verbatim>\<open>performOCR\<close> emits no chunk, since all three
  granularities sit under the test that the page text is not blank.
\<close>

theorem performOCR_empty_text_drops_words:
  "acceptsItem 100 100 (sampleItem ''abcde'' 10)
   \<and> od_words emptyTextData = Some [sampleItem ''abcde'' 10]
   \<and> performOCR (recognizedRun (Some emptyTextData) 100 100) 1 = Inr []"
  by (simp add: sampleItem_accepted trim_samples emptyTextData_def performOCR_def
      recognizedRun_def recognizedChunks_def)

subsection \<open>Channel arbitration\<close>

lemma performOCR_fails: "ocrFails run \<Longrightarrow> performOCR run n = Inr ocr \<Longrightarrow> ocr = []"
  by (auto simp: ocrFails_def performOCR_def split: outcome.splits prod.splits)

lemma finalTextChunks_fails: "ocrFails run \<Longrightarrow> finalTextChunks pdf run n = pdf"
  using performOCR_fails [of run n]
  by (auto simp: finalTextChunks_def hasHigherQuality_def split: sum.splits)

text \<open>
  Claim C2. For a page that has loaded (canvas context, render and text content), if any
  collaborator call of the OCR step throws, then the chunks selected for the page are the
  native chunks, and \<^verbatim>\<open>onPageLoadSuccess\<close> returns the page data, not an error; its chunk
  list is the grouping of the native chunks alone, which is empty when there are none.
\<close>

theorem ocr_failure_keeps_native:
  "pageLoaded page \<Longrightarrow> ocrFails (pl_ocr page) \<Longrightarrow>
   finalTextChunks (pageNative page n) (pl_ocr page) n = pageNative page n
   \<and> onPageLoadSuccess page n
       = Inr \<lparr>pd_pageNumber = n, pd_imageUrl = pl_imageUrl page,
              pd_textChunks = groupNearbyTextChunks (pageNative page n)\<rparr>"
  by (auto simp: pageLoaded_def pageNative_def onPageLoadSuccess_def finalTextChunks_fails
      split: outcome.splits)

theorem ocr_failure_keeps_native_witness:
  "ocrTriggered (pageNative (scannedPage failingRun) 1)
   \<and> onPageLoadSuccess (scannedPage failingRun) 1
       = Inr \<lparr>pd_pageNumber = 1, pd_imageUrl = ''data:image/png;base64'', pd_textChunks = []\<rparr>"
proof -
  have l: "pageLoaded (scannedPage failingRun)"
    by (simp add: pageLoaded_def scannedPage_def)
  have f: "ocrFails (pl_ocr (scannedPage failingRun))"
    by (simp add: ocrFails_def scannedPage_def failingRun_def)
  have n: "pageNative (scannedPage failingRun) 1 = []"
    by (simp add: pageNative_def scannedPage_def nativeChunks_def)
  show ?thesis
    using ocr_failure_keeps_native [OF l f, of 1] unfolding n
    by (simp add: ocrTriggered_def groupNearbyTextChunks_def scannedPage_def)
qed

text \<open>The averages of the samples, and the products the arbitration compares them with:
  \<open>3 * 1.2\<close> is the double \<open>3.5999999999999996\<close>, below the average \<open>3.6\<close> of the five OCR chunks.\<close>

lemma ocrTriggered_nativeTwo: "ocrTriggered nativeTwo"
  by (simp add: ocrTriggered_def nativeTwo_def)

lemma ocrTriggered_nativeFive: "ocrTriggered nativeFive"
  by (simp add: ocrTriggered_def nativeFive_def)

lemma sample_averages:
  "averageTextLength nativeTwo = 5" "averageTextLength ocrThree = 5"
  "averageTextLength nativeFive = 3" "averageTextLength ocrFive = 8106479329266893 / 2 ^ 51"
  by (simp_all add: averageTextLength_def nativeTwo_def ocrThree_def nativeFive_def ocrFive_def
      sampleChunk_def rnd_eval)

lemma sample_products:
  "fmul 5 (dbl 1.2) = 6" "fmul 2 (dbl 1.5) = 3"
  "fmul 3 (dbl 1.2) = 2026619832316723 / 2 ^ 49" "fmul 5 (dbl 1.5) = 15 / 2"
  by (simp_all add: rnd_eval)

lemma ocrThree_not_preferred_by_quality:
  "\<not> (averageTextLength ocrThree > fmul (averageTextLength nativeTwo) (dbl 1.2)
      \<or> real (length ocrThree) > fmul (real (length nativeTwo)) (dbl 1.5))"
  using sample_products by (simp add: sample_averages) (simp add: ocrThree_def nativeTwo_def)

lemma ocrFive_preferred_by_average:
  "averageTextLength ocrFive > fmul (averageTextLength nativeFive) (dbl 1.2)"
  using sample_products by (simp add: sample_averages)

lemma hasHigherQuality_rounded: "hasHigherQuality ocrFive nativeFive"
  using ocrFive_preferred_by_average
  by (simp add: hasHigherQuality_def Let_def) (simp add: ocrFive_def nativeFive_def)

text \<open>
  Claim C4, as the arbitration implements it. The averages and the products by 1.2 and by
  1.5 are those the source computes, in double arithmetic. On a page where OCR was
  triggered and returned a list of chunks that is not empty, the OCR chunks are selected
  exactly when there are more OCR chunks than native chunks, or the average text length of
  the OCR chunks exceeds 1.2 times that of the native chunks, or the number of OCR chunks
  exceeds 1.5 times the number of native chunks; otherwise the native chunks are kept.
\<close>

theorem finalTextChunks_selection:
  "ocrTriggered pdf \<Longrightarrow> performOCR run n = Inr ocr \<Longrightarrow> ocr \<noteq> [] \<Longrightarrow>
   finalTextChunks pdf run n
     = (if length ocr > length pdf
           \<or> averageTextLength ocr > fmul (averageTextLength pdf) (dbl 1.2)
           \<or> real (length ocr) > fmul (real (length pdf)) (dbl 1.5)
        then ocr else pdf)"
proof -
  assume t: "ocrTriggered pdf" and r: "performOCR run n = Inr ocr" and ne: "ocr \<noteq> []"
  have "pdf = [] \<Longrightarrow> length ocr > length pdf" using ne by simp
  then show ?thesis
    using t r ne by (auto simp: finalTextChunks_def hasHigherQuality_def Let_def)
qed

text \<open>Five native chunks of average length 3 against five OCR chunks of average length 3.6:
  the counts are equal, and the average decides for the OCR chunks.\<close>

theorem finalTextChunks_selection_witness:
  "finalTextChunks nativeFive (recognizedRun (Some fiveWordData) 100 100) 1 = ocrFive
   \<and> length ocrFive = length nativeFive"
proof -
  have ne: "ocrFive \<noteq> []" by (simp add: ocrFive_def)
  have len: "length ocrFive = length nativeFive" by (simp add: ocrFive_def nativeFive_def)
  show ?thesis
    using finalTextChunks_selection [OF ocrTriggered_nativeFive performOCR_fiveWords ne]
          ocrFive_preferred_by_average len
    by simp
qed

text \<open>
  Claim C4 as stated fails: with two native chunks and three OCR chunks of the same text
  length, OCR was triggered and returned a list that is not empty, neither the average
  text length nor the count passes its factor (5 against 6, 3 against 3), and still the
  OCR chunks are selected, because there are more of them.
\<close>

theorem finalTextChunks_more_chunks_selected:
  "ocrTriggered nativeTwo
   \<and> performOCR (recognizedRun (Some threeWordData) 100 100) 1 = Inr ocrThree
   \<and> ocrThree \<noteq> []
   \<and> finalTextChunks nativeTwo (recognizedRun (Some threeWordData) 100 100) 1 = ocrThree
   \<and> ocrThree \<noteq> nativeTwo
   \<and> \<not> (averageTextLength ocrThree > fmul (averageTextLength nativeTwo) (dbl 1.2)
         \<or> real (length ocrThree) > fmul (real (length nativeTwo)) (dbl 1.5))"
  using ocrTriggered_nativeTwo ocrThree_not_preferred_by_quality
  by (simp add: performOCR_threeWords finalTextChunks_def)
     (simp add: ocrThree_def nativeTwo_def)

subsection \<open>Chunk identifiers\<close>

text \<open>
  Claim C1 does not hold of the code. Block ids are \<^verbatim>\<open>block-0\<close>, \<^verbatim>\<open>block-1\<close>, ... within each
  page, and the chunk id is the block id: in a document of two scanned pages with one word
  each, the two chunks (texts \<^verbatim>\<open>Alpha\<close> and \<^verbatim>\<open>Beta\<close>, on pages 0 and 1) both have the chunk id
  \<^verbatim>\<open>block-0\<close>, so the chunk ids of the run are not distinct.
\<close>

theorem documentChunks_duplicate_ids:
  "map tc_chunk_id (documentChunks [wordScan ''Alpha'', wordScan ''Beta''])
     = [''block-0'', ''block-0'']
   \<and> map tc_text (documentChunks [wordScan ''Alpha'', wordScan ''Beta'']) = [''Alpha'', ''Beta'']
   \<and> map (map gr_page) (map tc_grounding (documentChunks [wordScan ''Alpha'', wordScan ''Beta'']))
       = [[0], [1]]
   \<and> \<not> distinct (map tc_chunk_id (documentChunks [wordScan ''Alpha'', wordScan ''Beta'']))"
  by (simp add: documentChunks_def documentIRPages_def wordScan_def generateTextChunks_def
      blockChunk_def blockText_def
      performEnhancedOCR_def ocrWordToWord_def sampleItem_def trim_def isSpace_def
      groupWordsIntoLines_def sortBy_def assembleLines_def groupLinesIntoBlocks_def
      assembleBlocks_def showNat.simps digitChar_def Let_def)

end
